theory Spec2Isabelle
  imports Main "HOL-Library.Char_ord" "HOL-Library.List_Lexorder"
begin

section \<open>Exceptions\<close>

text \<open>
  The Python exceptions that the modelled code raises or converts. Only subclasses of
  \<^verbatim>\<open>Exception\<close> occur: they are what the \<^verbatim>\<open>except Exception\<close> clauses of the request
  handlers and of the worker loop catch. \<open>OperationalError\<close> is SQLite's.
\<close>

datatype exn =
    ValueError string
  | ValidationError string
  | HTTPException nat string
  | AttributeError string
  | OperationalError string
  | OtherException string

section \<open>Integers as text\<close>

text \<open>
  Python's \<^verbatim>\<open>str\<close> of an integer: an optional sign and the decimal digits. CPython limits
  the conversion: \<^verbatim>\<open>str(i)\<close>, and with it every f-string that formats \<^verbatim>\<open>i\<close>, raises
  \<^verbatim>\<open>ValueError\<close> when \<^verbatim>\<open>i\<close> has more digits than \<^verbatim>\<open>sys.get_int_max_str_digits()\<close> (4300
  unless the process changes it; 0 switches the limit off, and a limit between 1 and 639
  cannot be set). The limit is the parameter \<open>max_str_digits\<close>.
\<close>

definition digit_char :: "nat \<Rightarrow> char" where
  "digit_char d = char_of (48 + d)"

fun str_nat :: "nat \<Rightarrow> string" where
  "str_nat k = (if k < 10 then [digit_char k] else str_nat (k div 10) @ [digit_char (k mod 10)])"

declare str_nat.simps [simp del]

definition str_int :: "int \<Rightarrow> string" where
  "str_int i = (if i < 0 then CHR ''-'' # str_nat (nat (- i)) else str_nat (nat i))"

definition exceeds_str_digits :: "nat \<Rightarrow> int \<Rightarrow> bool" where
  "exceeds_str_digits max_str_digits i =
     (0 < max_str_digits \<and> max_str_digits < length (str_nat (nat \<bar>i\<bar>)))"

definition str_digits_error :: "nat \<Rightarrow> exn" where
  "str_digits_error max_str_digits =
     ValueError (''Exceeds the limit ('' @ str_nat max_str_digits @
       '' digits) for integer string conversion; '' @
       ''use sys.set_int_max_str_digits() to increase the limit'')"

text \<open>
  An f-string that formats the given integers, from left to right: the exception it
  raises, if any. The text itself only goes to the log.
\<close>

fun fstring_error :: "nat \<Rightarrow> int list \<Rightarrow> exn option" where
  "fstring_error max_str_digits [] = None"
| "fstring_error max_str_digits (i # rest) =
     (if exceeds_str_digits max_str_digits i then Some (str_digits_error max_str_digits)
      else fstring_error max_str_digits rest)"

section \<open>operations/fibonacci.py\<close>

text \<open>
  \<^verbatim>\<open>
  def fibonacci(n: int) -> int:
      if n < 0:
          raise ValueError("Fibonacci not defined for negative numbers")
      if n in (0, 1):
          return n
      a, b = 0, 1
      for _ in range(n - 1):
          a, b = b, a + b
      return b
  \<close>
  The \<^verbatim>\<open>for\<close> loop runs its body \<^verbatim>\<open>n - 1\<close> times; \<open>fib_loop k a b\<close> is the pair
  \<^verbatim>\<open>(a, b)\<close> after \<open>k\<close> more iterations. Python integers are unbounded, hence \<open>int\<close>.
\<close>

fun fib_loop :: "nat \<Rightarrow> int \<Rightarrow> int \<Rightarrow> int \<times> int" where
  "fib_loop 0 a b = (a, b)"
| "fib_loop (Suc k) a b = fib_loop k b (a + b)"

definition fibonacci :: "int \<Rightarrow> exn + int" where
  "fibonacci n =
     (if n < 0 then Inl (ValueError ''Fibonacci not defined for negative numbers'')
      else if n = 0 \<or> n = 1 then Inr n
      else Inr (snd (fib_loop (nat (n - 1)) 0 1)))"

section \<open>models.py\<close>

text \<open>
  \<^verbatim>\<open>
  class PowInput(BaseModel):
      x: float = Field(..., description="Baza")
      y: float = Field(..., description="Exponentul")

  class PowResult(BaseModel):
      operation: str = "pow"
      x: float
      y: float
      result: float

  class FibonacciInput(BaseModel):
      n: int = Field(..., ge=0, description="Pozitia in sir")

  class FibonacciResult(BaseModel):
      operation: str = "fibonacci"
      n: int
      result: int

  class FactorialInput(BaseModel):
      n: int = Field(..., ge=0, description="Numar pentru factorial")

  class FactorialResult(BaseModel):
      operation: str = "factorial"
      n: int
      result: int
  \<close>
  Constructing a \<^verbatim>\<open>FibonacciInput\<close> or a \<^verbatim>\<open>FactorialInput\<close> validates the constraint
  \<^verbatim>\<open>ge=0\<close>; a request whose body fails it never reaches the handler. Python's floats are
  the type parameter \<open>'f\<close>.
\<close>

record 'f PowInput =
  pi_x :: 'f
  pi_y :: 'f

record 'f PowResult =
  pr_operation :: string
  pr_x :: 'f
  pr_y :: 'f
  pr_result :: 'f

record FibonacciInput =
  fi_n :: int

record FibonacciResult =
  fr_operation :: string
  fr_n :: int
  fr_result :: int

record FactorialInput =
  fa_n :: int

record FactorialResult =
  far_operation :: string
  far_n :: int
  far_result :: int

definition new_PowResult :: "'f \<Rightarrow> 'f \<Rightarrow> 'f \<Rightarrow> 'f PowResult" where
  "new_PowResult x y r = \<lparr>pr_operation = ''pow'', pr_x = x, pr_y = y, pr_result = r\<rparr>"

definition new_FibonacciInput :: "int \<Rightarrow> exn + FibonacciInput" where
  "new_FibonacciInput v =
     (if 0 \<le> v then Inr \<lparr>fi_n = v\<rparr>
      else Inl (ValidationError ''Input should be greater than or equal to 0''))"

definition new_FibonacciResult :: "int \<Rightarrow> int \<Rightarrow> FibonacciResult" where
  "new_FibonacciResult v r = \<lparr>fr_operation = ''fibonacci'', fr_n = v, fr_result = r\<rparr>"

definition new_FactorialInput :: "int \<Rightarrow> exn + FactorialInput" where
  "new_FactorialInput v =
     (if 0 \<le> v then Inr \<lparr>fa_n = v\<rparr>
      else Inl (ValidationError ''Input should be greater than or equal to 0''))"

definition new_FactorialResult :: "int \<Rightarrow> int \<Rightarrow> FactorialResult" where
  "new_FactorialResult v r = \<lparr>far_operation = ''factorial'', far_n = v, far_result = r\<rparr>"

text \<open>
  \<^verbatim>\<open>model_dump_json()\<close> writes the fields in declaration order, without spaces, integers
  in decimal with all their digits (the serializer does not go through \<^verbatim>\<open>str\<close> and knows
  no digit limit). The JSON text of a float is the parameter \<open>dump_float\<close>.
\<close>

definition dump_PowInput :: "('f \<Rightarrow> string) \<Rightarrow> 'f PowInput \<Rightarrow> string" where
  \<open>dump_PowInput dump_float d =
     ''{"x":'' @ dump_float (pi_x d) @ '',"y":'' @ dump_float (pi_y d) @ ''}''\<close>

definition dump_PowResult :: "('f \<Rightarrow> string) \<Rightarrow> 'f PowResult \<Rightarrow> string" where
  \<open>dump_PowResult dump_float out =
     ''{"operation":"'' @ pr_operation out @ ''","x":'' @ dump_float (pr_x out) @
     '',"y":'' @ dump_float (pr_y out) @ '',"result":'' @ dump_float (pr_result out) @ ''}''\<close>

definition dump_FibonacciInput :: "FibonacciInput \<Rightarrow> string" where
  \<open>dump_FibonacciInput d = ''{"n":'' @ str_int (fi_n d) @ ''}''\<close>

definition dump_FibonacciResult :: "FibonacciResult \<Rightarrow> string" where
  \<open>dump_FibonacciResult out =
     ''{"operation":"'' @ fr_operation out @ ''","n":'' @ str_int (fr_n out) @
     '',"result":'' @ str_int (fr_result out) @ ''}''\<close>

definition dump_FactorialInput :: "FactorialInput \<Rightarrow> string" where
  \<open>dump_FactorialInput d = ''{"n":'' @ str_int (fa_n d) @ ''}''\<close>

definition dump_FactorialResult :: "FactorialResult \<Rightarrow> string" where
  \<open>dump_FactorialResult out =
     ''{"operation":"'' @ far_operation out @ ''","n":'' @ str_int (far_n out) @
     '',"result":'' @ str_int (far_result out) @ ''}''\<close>

section \<open>utils/cache.py\<close>

text \<open>
  \<^verbatim>\<open>
  memory_cache: Dict[Tuple[str, str], str] = {}

  def get_from_cache(operation, input_data):
      cache_key = (operation, input_data)
      cached_result = memory_cache.get(cache_key)
      ...                                   # logging only
      return cached_result

  def set_in_cache(operation, input_data, result):
      cache_key = (operation, input_data)
      memory_cache[cache_key] = result

  def clear_cache():
      global memory_cache
      memory_cache = {}
  \<close>
  The module-level dictionary is passed explicitly. \<^verbatim>\<open>dict.get\<close> returns \<^verbatim>\<open>None\<close> for an
  absent key.
\<close>

type_synonym cache = "string \<times> string \<Rightarrow> string option"

definition get_from_cache :: "string \<Rightarrow> string \<Rightarrow> cache \<Rightarrow> string option" where
  "get_from_cache operation input_data memory_cache = memory_cache (operation, input_data)"

definition set_in_cache :: "string \<Rightarrow> string \<Rightarrow> string \<Rightarrow> cache \<Rightarrow> cache" where
  "set_in_cache operation input_data res memory_cache =
     memory_cache((operation, input_data) \<mapsto> res)"

definition clear_cache :: "cache \<Rightarrow> cache" where
  "clear_cache memory_cache = Map.empty"

text \<open>
  A sequence of cache calls, for statements about what happens between two calls.
\<close>

datatype cache_call =
    Get string string
  | Set string string string
  | Clear

fun cache_step :: "cache \<Rightarrow> cache_call \<Rightarrow> cache" where
  "cache_step c (Get operation input_data) = c"
| "cache_step c (Set operation input_data res) = set_in_cache operation input_data res c"
| "cache_step c Clear = clear_cache c"

definition cache_run :: "cache \<Rightarrow> cache_call list \<Rightarrow> cache" where
  "cache_run c calls = foldl cache_step c calls"

fun stores_to :: "string \<times> string \<Rightarrow> cache_call \<Rightarrow> bool" where
  "stores_to f (Set operation input_data res) = ((operation, input_data) = f)"
| "stores_to f (Get operation input_data) = False"
| "stores_to f Clear = False"

section \<open>db/sqlite_handler.py\<close>

text \<open>
  The table \<^verbatim>\<open>operations(id, operation, input, result, timestamp)\<close> is the list of its
  rows in insertion order; the autoincrement \<^verbatim>\<open>id\<close> is never selected and is left out.
  All four columns are \<^verbatim>\<open>TEXT NOT NULL\<close>; SQLite compares \<^verbatim>\<open>TEXT\<close> bytewise, which is the
  lexicographic order on \<open>string\<close>.
\<close>

record operation_row =
  row_operation :: string
  row_input :: string
  row_result :: string
  row_timestamp :: string

text \<open>
  \<^verbatim>\<open>
  def save_operation(operation, input_data, result):
      conn = sqlite3.connect(DB_FILE)
      cursor = conn.cursor()
      cursor.execute("INSERT INTO operations (operation, input, result, timestamp)
                      VALUES (?, ?, ?, ?)",
                     (operation, input_data, result, datetime.utcnow().isoformat()))
      conn.commit()
      conn.close()
  \<close>
  The clock reading \<^verbatim>\<open>datetime.utcnow().isoformat()\<close> is the parameter \<open>utcnow\<close>. Whether
  SQLite fails (file not writable, table missing, database locked) is the parameter
  \<open>db_fault\<close>: the exception raised, in which case nothing is written.
\<close>

definition save_operation ::
  "exn option \<Rightarrow> string \<Rightarrow> string \<Rightarrow> string \<Rightarrow> string \<Rightarrow> operation_row list \<Rightarrow>
     exn + operation_row list" where
  "save_operation db_fault operation input_data res utcnow table =
     (case db_fault of
        Some e \<Rightarrow> Inl e
      | None \<Rightarrow> Inr (table @ [\<lparr>row_operation = operation, row_input = input_data,
                                row_result = res, row_timestamp = utcnow\<rparr>]))"

text \<open>
  SQLite's \<^verbatim>\<open>LIKE\<close> on UTF-8 text, as Python's \<^verbatim>\<open>str\<close> is bound: \<^verbatim>\<open>%\<close> matches any run of
  characters, \<^verbatim>\<open>_\<close> any single character, and ASCII letters match without regard to
  case. A character is a lead byte with the continuation bytes (\<^verbatim>\<open>10xxxxxx\<close>) that
  follow it; \<open>skip_utf8\<close> is the text after the character that starts with byte \<open>c\<close>.
  (SQLite refuses a pattern of more than 50000 bytes; such a filter is outside the
  model.)
\<close>

definition ascii_lower :: "char \<Rightarrow> char" where
  "ascii_lower c =
     (if CHR ''A'' \<le> c \<and> c \<le> CHR ''Z'' then char_of (of_char c + (32::nat)) else c)"

definition continuation_byte :: "char \<Rightarrow> bool" where
  "continuation_byte c = (128 \<le> (of_char c :: nat) \<and> (of_char c :: nat) < 192)"

definition skip_utf8 :: "char \<Rightarrow> string \<Rightarrow> string" where
  "skip_utf8 c cs = (if 192 \<le> (of_char c :: nat) then dropWhile continuation_byte cs else cs)"

function sql_like :: "string \<Rightarrow> string \<Rightarrow> bool" where
  "sql_like [] s = (s = [])"
| "sql_like (p # ps) [] = (p = CHR ''%'' \<and> sql_like ps [])"
| "sql_like (p # ps) (c # cs) =
     (if p = CHR ''%'' then sql_like ps (c # cs) \<or> sql_like (p # ps) (skip_utf8 c cs)
      else if p = CHR ''_'' then sql_like ps (skip_utf8 c cs)
      else ascii_lower p = ascii_lower c \<and> sql_like ps cs)"
  by pat_completeness auto
termination
proof (relation "measure (\<lambda>(p, s). length p + length s)")
  fix p :: char and ps :: string and c :: char and cs :: string
  have le: "length (skip_utf8 c cs) \<le> length cs"
    by (simp add: skip_utf8_def length_dropWhile_le)
  show "((p # ps, skip_utf8 c cs), p # ps, c # cs) \<in> measure (\<lambda>(p, s). length p + length s)"
    using le by simp
  show "((ps, skip_utf8 c cs), p # ps, c # cs) \<in> measure (\<lambda>(p, s). length p + length s)"
    using le by simp
qed simp_all

text \<open>
  The filters of both queries:
  \<^verbatim>\<open>
  if operation_filter:
      conditions.append("operation = ?"); params.append(operation_filter)
  if input_filter:
      conditions.append("input LIKE ?"); params.append(f"%{input_filter}%")
  if conditions:
      query += " WHERE " + " AND ".join(conditions)
  \<close>
  \<^verbatim>\<open>None\<close> and the empty string are both falsy and add no condition.
\<close>

definition where_conditions :: "string option \<Rightarrow> string option \<Rightarrow> operation_row \<Rightarrow> bool" where
  "where_conditions operation_filter input_filter r =
     ((case operation_filter of
         None \<Rightarrow> True
       | Some f \<Rightarrow> if f = [] then True else row_operation r = f) \<and>
      (case input_filter of
         None \<Rightarrow> True
       | Some f \<Rightarrow> if f = [] then True
                  else sql_like (CHR ''%'' # f @ [CHR ''%'']) (row_input r)))"

text \<open>
  \<^verbatim>\<open>
  SELECT o1.operation, o1.input, o1.result, o1.timestamp
  FROM operations o1
  INNER JOIN (SELECT operation, input, MAX(timestamp) as max_timestamp
              FROM operations [WHERE ...]
              GROUP BY operation, input) o2
    ON o1.operation = o2.operation AND o1.input = o2.input
   AND o1.timestamp = o2.max_timestamp
  ORDER BY o1.timestamp DESC
  \<close>
  \<open>group_by_operation_input\<close> is the subquery \<^verbatim>\<open>o2\<close>: one row per (operation, input)
  group of the filtered table, with the group's greatest timestamp. \<open>inner_join\<close> pairs
  every row of \<^verbatim>\<open>o1\<close> with every row of \<^verbatim>\<open>o2\<close> that satisfies the \<^verbatim>\<open>ON\<close> condition. SQL
  leaves the order of rows with equal timestamps open, and SQLite may return them in
  another order than the model, which takes a stable sort, reversed; nothing below
  depends on the order of rows with equal timestamps.

  The model is the list \<^verbatim>\<open>rows = cursor.fetchall()\<close>. The formatting loop that follows
  turns each row into one dictionary (\<^verbatim>\<open>json.loads\<close> of input and result, with the raw
  text as fallback on \<^verbatim>\<open>JSONDecodeError\<close>) and neither drops, adds nor reorders rows, so
  the function returns one entry per row of the model, in the same order, whenever it
  returns. It raises instead when \<^verbatim>\<open>json.loads\<close> raises another exception than
  \<^verbatim>\<open>JSONDecodeError\<close>, as on a text holding an integer with more digits than the
  interpreter's limit.
\<close>

definition fingerprint :: "operation_row \<Rightarrow> string \<times> string" where
  "fingerprint r = (row_operation r, row_input r)"

fun sql_max :: "string list \<Rightarrow> string option" where
  "sql_max [] = None"
| "sql_max (t # ts) = Some (fold max ts t)"

definition group_by_operation_input ::
  "operation_row list \<Rightarrow> ((string \<times> string) \<times> string option) list" where
  "group_by_operation_input rows =
     map (\<lambda>k. (k, sql_max (map row_timestamp (filter (\<lambda>r. fingerprint r = k) rows))))
         (remdups (map fingerprint rows))"

definition inner_join ::
  "operation_row list \<Rightarrow> ((string \<times> string) \<times> string option) list \<Rightarrow> operation_row list" where
  "inner_join o1 o2 =
     concat (map (\<lambda>r. map (\<lambda>g. r)
        (filter (\<lambda>g. fingerprint r = fst g \<and> Some (row_timestamp r) = snd g) o2)) o1)"

definition order_by_timestamp_desc :: "operation_row list \<Rightarrow> operation_row list" where
  "order_by_timestamp_desc rows = rev (sort_key row_timestamp rows)"

definition get_unique_operations ::
  "string option \<Rightarrow> string option \<Rightarrow> operation_row list \<Rightarrow> operation_row list" where
  "get_unique_operations operation_filter input_filter table =
     order_by_timestamp_desc
       (inner_join table
          (group_by_operation_input
             (filter (where_conditions operation_filter input_filter) table)))"

text \<open>
  \<^verbatim>\<open>
  def get_db_stats():
      cursor.execute("SELECT COUNT(*) FROM operations")
      total = cursor.fetchone()[0]
      cursor.execute("SELECT COUNT(DISTINCT operation || input) FROM operations")
      unique = cursor.fetchone()[0]
      cursor.execute("SELECT operation, COUNT(*) FROM operations GROUP BY operation")
      by_operation = dict(cursor.fetchall())
      return {"total_operations": total, "unique_combinations": unique,
              "duplicates": total - unique, "by_operation": by_operation}
  \<close>
  \<^verbatim>\<open>||\<close> is SQL string concatenation.
\<close>

record db_stats =
  total_operations :: int
  unique_combinations :: int
  duplicates :: int
  by_operation :: "string \<Rightarrow> int option"

definition get_db_stats :: "operation_row list \<Rightarrow> db_stats" where
  "get_db_stats table =
     (let total = int (length table);
          unique = int (length (remdups (map (\<lambda>r. row_operation r @ row_input r) table)))
      in \<lparr>total_operations = total,
          unique_combinations = unique,
          duplicates = total - unique,
          by_operation = map_of (map (\<lambda>name. (name,
                int (length (filter (\<lambda>r. row_operation r = name) table))))
              (remdups (map row_operation table)))\<rparr>)"

section \<open>api/main.py\<close>

text \<open>
  The process state the handlers act on: the cache dictionary and the table. What a
  request meets outside the process: the clock reading a save would take, and SQLite's
  failure, if any.
\<close>

record state =
  memory_cache :: cache
  operations_table :: "operation_row list"

record env =
  env_utcnow :: string
  env_db_fault :: "exn option"

text \<open>
  \<^verbatim>\<open>
  @app.post("/api/fibonacci", response_model=FibonacciResult)
  def calculate_fibonacci(data: FibonacciInput):
      try:
          input_json = data.model_dump_json()
          cached = get_from_cache("fibonacci", input_json)
          if cached:
              logger.info(f"Rezultat din cache pentru fibonacci({data.n})")
              return json.loads(cached)
          result = fibonacci(data.n)
          output = FibonacciResult(n=data.n, result=result)
          result_json = output.model_dump_json()
          set_in_cache("fibonacci", input_json, result_json)
          save_operation("fibonacci", input_json, result_json)
          logger.info(f"Calcul complet fibonacci({data.n}) = {result}")
          return output
      except Exception as e:
          handle_generic_exception(e, context="Eroare API /fibonacci")
          raise HTTPException(status_code=500, detail="Eroare interna")
  \<close>
  \<^verbatim>\<open>if cached:\<close> is false for \<^verbatim>\<open>None\<close> and for the empty string, so \<open>the cached\<close> is
  read only where \<open>cached\<close> is \<open>Some\<close>. Every statement of the \<^verbatim>\<open>try\<close> block that can raise
  is a branch: the f-strings that format an integer, \<^verbatim>\<open>json.loads\<close> (the parameter
  \<open>json_loads\<close>: the standard library's parser, which raises on a text it rejects), the
  operation, and the save. An exception leaves the state as the statements before it
  made it: the cache is written before the save, and both before the last log line. The
  log lines of \<^verbatim>\<open>get_from_cache\<close>, \<^verbatim>\<open>set_in_cache\<close> and \<^verbatim>\<open>save_operation\<close> format texts only.
  The exception handler logs and raises the HTTP error. The detail text of the source
  ends in a non-ASCII letter, written here as its two UTF-8 bytes.
\<close>

datatype ('o, 'j) response =
    FromCache 'j
  | Computed 'o

definition py_truthy :: "string option \<Rightarrow> bool" where
  "py_truthy cached = (case cached of None \<Rightarrow> False | Some v \<Rightarrow> v \<noteq> [])"

definition eroare_interna :: string where
  "eroare_interna = ''Eroare intern'' @ [char_of (0xC4::nat), char_of (0x83::nat)]"

definition internal_error :: "exn + 'a" where
  "internal_error = Inl (HTTPException 500 eroare_interna)"

definition calculate_fibonacci ::
  "(string \<Rightarrow> exn + 'j) \<Rightarrow> nat \<Rightarrow> FibonacciInput \<Rightarrow> env \<Rightarrow> state \<Rightarrow>
     (exn + (FibonacciResult, 'j) response) \<times> state" where
  "calculate_fibonacci json_loads max_str_digits data e st =
     (let input_json = dump_FibonacciInput data;
          cached = get_from_cache ''fibonacci'' input_json (memory_cache st)
      in if py_truthy cached then
           (case fstring_error max_str_digits [fi_n data] of
              Some err \<Rightarrow> (internal_error, st)
            | None \<Rightarrow>
                (case json_loads (the cached) of
                   Inl err \<Rightarrow> (internal_error, st)
                 | Inr parsed \<Rightarrow> (Inr (FromCache parsed), st)))
         else
           (case fibonacci (fi_n data) of
              Inl err \<Rightarrow> (internal_error, st)
            | Inr res \<Rightarrow>
                (let output = new_FibonacciResult (fi_n data) res;
                     result_json = dump_FibonacciResult output;
                     st1 = st\<lparr>memory_cache :=
                              set_in_cache ''fibonacci'' input_json result_json (memory_cache st)\<rparr>
                 in case save_operation (env_db_fault e) ''fibonacci'' input_json result_json
                           (env_utcnow e) (operations_table st1) of
                      Inl err \<Rightarrow> (internal_error, st1)
                    | Inr table \<Rightarrow>
                        (let st2 = st1\<lparr>operations_table := table\<rparr>
                         in case fstring_error max_str_digits [fi_n data, res] of
                              Some err \<Rightarrow> (internal_error, st2)
                            | None \<Rightarrow> (Inr (Computed output), st2)))))"

text \<open>
  \<^verbatim>\<open>calculate_factorial\<close> is the same function with \<^verbatim>\<open>"factorial"\<close>, \<^verbatim>\<open>FactorialInput\<close>,
  \<^verbatim>\<open>factorial(data.n)\<close> and \<^verbatim>\<open>FactorialResult\<close>. The file \<^verbatim>\<open>operations/factorial.py\<close> is not
  among the sources: the operation is the parameter \<open>factorial\<close>, a function from the
  integer to the integer it returns or the exception it raises.
\<close>

definition calculate_factorial ::
  "(int \<Rightarrow> exn + int) \<Rightarrow> (string \<Rightarrow> exn + 'j) \<Rightarrow> nat \<Rightarrow> FactorialInput \<Rightarrow> env \<Rightarrow> state \<Rightarrow>
     (exn + (FactorialResult, 'j) response) \<times> state" where
  "calculate_factorial factorial json_loads max_str_digits data e st =
     (let input_json = dump_FactorialInput data;
          cached = get_from_cache ''factorial'' input_json (memory_cache st)
      in if py_truthy cached then
           (case fstring_error max_str_digits [fa_n data] of
              Some err \<Rightarrow> (internal_error, st)
            | None \<Rightarrow>
                (case json_loads (the cached) of
                   Inl err \<Rightarrow> (internal_error, st)
                 | Inr parsed \<Rightarrow> (Inr (FromCache parsed), st)))
         else
           (case factorial (fa_n data) of
              Inl err \<Rightarrow> (internal_error, st)
            | Inr res \<Rightarrow>
                (let output = new_FactorialResult (fa_n data) res;
                     result_json = dump_FactorialResult output;
                     st1 = st\<lparr>memory_cache :=
                              set_in_cache ''factorial'' input_json result_json (memory_cache st)\<rparr>
                 in case save_operation (env_db_fault e) ''factorial'' input_json result_json
                           (env_utcnow e) (operations_table st1) of
                      Inl err \<Rightarrow> (internal_error, st1)
                    | Inr table \<Rightarrow>
                        (let st2 = st1\<lparr>operations_table := table\<rparr>
                         in case fstring_error max_str_digits [fa_n data, res] of
                              Some err \<Rightarrow> (internal_error, st2)
                            | None \<Rightarrow> (Inr (Computed output), st2)))))"

text \<open>
  \<^verbatim>\<open>
  @app.post("/api/pow", response_model=PowResult)
  def calculate_pow(data: PowInput):
      try:
          input_json = data.model_dump_json()
          cached = get_from_cache("pow", input_json)
          if cached:
              logger.info(f"Rezultat din cache pentru pow({data.x}, {data.y})")
              return json.loads(cached)
          result = power(data.x, data.y)
          output = PowResult(x=data.x, y=data.y, result=result)
          result_json = output.model_dump_json()
          set_in_cache("pow", input_json, result_json)
          save_operation("pow", input_json, result_json)
          logger.info(f"Calcul complet pow({data.x}, {data.y}) = {result}")
          return output
      except Exception as e:
          handle_generic_exception(e, context="Eroare API /pow")
          raise HTTPException(status_code=500, detail="Eroare interna")
  \<close>
  The file \<^verbatim>\<open>operations/pow.py\<close> is not among the sources. The parameter \<open>power_fn\<close> stands
  for the call \<^verbatim>\<open>power(data.x, data.y)\<close> together with the validation of its value as the
  float field of \<^verbatim>\<open>PowResult\<close>: the two statements precede every change of state, and
  they either raise or yield the float stored in the result. Formatting a float raises
  nothing.
\<close>

definition calculate_pow ::
  "('f \<Rightarrow> 'f \<Rightarrow> exn + 'f) \<Rightarrow> ('f \<Rightarrow> string) \<Rightarrow> (string \<Rightarrow> exn + 'j) \<Rightarrow> 'f PowInput \<Rightarrow> env \<Rightarrow>
     state \<Rightarrow> (exn + ('f PowResult, 'j) response) \<times> state" where
  "calculate_pow power_fn dump_float json_loads data e st =
     (let input_json = dump_PowInput dump_float data;
          cached = get_from_cache ''pow'' input_json (memory_cache st)
      in if py_truthy cached then
           (case json_loads (the cached) of
              Inl err \<Rightarrow> (internal_error, st)
            | Inr parsed \<Rightarrow> (Inr (FromCache parsed), st))
         else
           (case power_fn (pi_x data) (pi_y data) of
              Inl err \<Rightarrow> (internal_error, st)
            | Inr res \<Rightarrow>
                (let output = new_PowResult (pi_x data) (pi_y data) res;
                     result_json = dump_PowResult dump_float output;
                     st1 = st\<lparr>memory_cache :=
                              set_in_cache ''pow'' input_json result_json (memory_cache st)\<rparr>
                 in case save_operation (env_db_fault e) ''pow'' input_json result_json
                           (env_utcnow e) (operations_table st1) of
                      Inl err \<Rightarrow> (internal_error, st1)
                    | Inr table \<Rightarrow> (Inr (Computed output), st1\<lparr>operations_table := table\<rparr>))))"

text \<open>
  \<^verbatim>\<open>
  @app.post("/api/cache/clear")
  def clear_cache_endpoint():
      clear_cache()
  \<close>
\<close>

definition clear_cache_endpoint :: "state \<Rightarrow> state" where
  "clear_cache_endpoint st = st\<lparr>memory_cache := clear_cache (memory_cache st)\<rparr>"

definition records_for :: "string \<times> string \<Rightarrow> operation_row list \<Rightarrow> operation_row list" where
  "records_for f rows = filter (\<lambda>r. fingerprint r = f) rows"

text \<open>
  What the handlers use and the sources do not contain: the two operations, the JSON
  text of a float, the standard library's \<^verbatim>\<open>json.loads\<close> and the interpreter's digit
  limit.
\<close>

record ('f, 'j) library =
  lib_power :: "'f \<Rightarrow> 'f \<Rightarrow> exn + 'f"
  lib_factorial :: "int \<Rightarrow> exn + int"
  lib_dump_float :: "'f \<Rightarrow> string"
  lib_json_loads :: "string \<Rightarrow> exn + 'j"
  lib_max_str_digits :: nat

text \<open>
  The requests that reach the process, one after the other: a POST to \<^verbatim>\<open>/api/pow\<close>,
  \<^verbatim>\<open>/api/factorial\<close> or \<^verbatim>\<open>/api/fibonacci\<close> with the values of its body, or a POST to
  \<^verbatim>\<open>/api/cache/clear\<close>. A body that the input model rejects is answered by the framework
  and never enters the handler. \<open>fingerprint_of\<close> is the cache key and the (operation,
  input) pair of the record that the handler of a request works with.
\<close>

datatype 'f request =
    PostPow 'f 'f
  | PostFactorial int
  | PostFibonacci int
  | PostCacheClear

fun handle_request :: "('f, 'j) library \<Rightarrow> env \<Rightarrow> state \<Rightarrow> 'f request \<Rightarrow> state" where
  "handle_request lib e st (PostPow x y) =
     snd (calculate_pow (lib_power lib) (lib_dump_float lib) (lib_json_loads lib)
            \<lparr>pi_x = x, pi_y = y\<rparr> e st)"
| "handle_request lib e st (PostFactorial v) =
     (case new_FactorialInput v of
        Inl err \<Rightarrow> st
      | Inr data \<Rightarrow>
          snd (calculate_factorial (lib_factorial lib) (lib_json_loads lib)
                 (lib_max_str_digits lib) data e st))"
| "handle_request lib e st (PostFibonacci v) =
     (case new_FibonacciInput v of
        Inl err \<Rightarrow> st
      | Inr data \<Rightarrow>
          snd (calculate_fibonacci (lib_json_loads lib) (lib_max_str_digits lib) data e st))"
| "handle_request lib e st PostCacheClear = clear_cache_endpoint st"

fun fingerprint_of :: "('f, 'j) library \<Rightarrow> 'f request \<Rightarrow> (string \<times> string) option" where
  "fingerprint_of lib (PostPow x y) =
     Some (''pow'', dump_PowInput (lib_dump_float lib) \<lparr>pi_x = x, pi_y = y\<rparr>)"
| "fingerprint_of lib (PostFactorial v) =
     (case new_FactorialInput v of
        Inl err \<Rightarrow> None
      | Inr data \<Rightarrow> Some (''factorial'', dump_FactorialInput data))"
| "fingerprint_of lib (PostFibonacci v) =
     (case new_FibonacciInput v of
        Inl err \<Rightarrow> None
      | Inr data \<Rightarrow> Some (''fibonacci'', dump_FibonacciInput data))"
| "fingerprint_of lib PostCacheClear = None"

definition serve :: "('f, 'j) library \<Rightarrow> state \<Rightarrow> (env \<times> 'f request) list \<Rightarrow> state" where
  "serve lib st requests = foldl (\<lambda>s (e, q). handle_request lib e s q) st requests"

definition is_cache_clear :: "env \<times> 'f request \<Rightarrow> bool" where
  "is_cache_clear eq = (snd eq = PostCacheClear)"

text \<open>
  What one call of a handler with cache key \<open>k\<close> can do to the state. On a hit: nothing.
  On a miss: nothing (the operation raised), or the cache entry alone (the save raised),
  or the cache entry and one record, both holding the same non-empty result text.
\<close>

definition handler_effect :: "string \<times> string \<Rightarrow> env \<Rightarrow> state \<Rightarrow> state \<Rightarrow> bool" where
  "handler_effect k e st st' =
     (if py_truthy (memory_cache st k) then st' = st
      else st' = st \<or>
           (\<exists>res. res \<noteq> [] \<and>
              (st' = st\<lparr>memory_cache := (memory_cache st)(k \<mapsto> res)\<rparr> \<or>
               (env_db_fault e = None \<and>
                st' = st\<lparr>memory_cache := (memory_cache st)(k \<mapsto> res),
                         operations_table := operations_table st @
                           [\<lparr>row_operation = fst k, row_input = snd k, row_result = res,
                             row_timestamp = env_utcnow e\<rparr>]\<rparr>))))"


section \<open>workers/thread_worker.py\<close>

text \<open>
  \<^verbatim>\<open>
  class MathWorker(Thread):
      def run(self):
          while True:
              task = self.queue.get()
              if task is None:
                  logger.info("Worker oprit (exit signal primit).")
                  break
              try:
                  func = task["func"]
                  args = task["args"]
                  callback = task.get("callback", lambda *_: None)
                  logger.debug(f"Pornesc task: {func.__name__}({args})")
                  result = func(**args)
                  callback(result)
                  logger.debug(f"Task completat: {func.__name__}")
              except Exception as e:
                  handle_generic_exception(e, context="Eroare in worker")
              finally:
                  self.queue.task_done()
  \<close>
  A task is the dictionary with its \<^verbatim>\<open>func\<close>, its \<^verbatim>\<open>args\<close> and an optional \<^verbatim>\<open>callback\<close>,
  as \<^verbatim>\<open>cli.py\<close> puts it into the queue. \<open>func_name\<close> is \<^verbatim>\<open>func.__name__\<close>, absent for a
  callable without that attribute. The first f-string is evaluated inside the \<^verbatim>\<open>try\<close>,
  before the operation is called: it raises \<^verbatim>\<open>AttributeError\<close> when the name is absent,
  and whatever formatting \<^verbatim>\<open>args\<close> raises (the parameter \<open>format_args\<close>: the exception, if
  any); the operation is then not called. The operation either returns a value or
  raises. A callback acts on the state \<open>'s\<close> outside the worker (cache, table, console)
  and may itself raise after changing it. The worker's own effects are its log lines
  and the calls of \<^verbatim>\<open>task_done\<close>; a \<open>CallbackCalled\<close> entry marks the point where
  \<^verbatim>\<open>callback(result)\<close> is entered. The queue is the list of items put into it, \<^verbatim>\<open>None\<close>
  being the exit signal. When the list is used up, \<^verbatim>\<open>queue.get()\<close> blocks: the worker is
  \<open>Waiting\<close>.
\<close>

record ('a, 'r, 's) task =
  func :: "'a \<Rightarrow> exn + 'r"
  func_name :: "string option"
  args :: 'a
  callback :: "('r \<Rightarrow> 's \<Rightarrow> exn option \<times> 's) option"

datatype worker_event =
    TaskStarted
  | CallbackCalled
  | TaskCompleted
  | ErrorHandled exn
  | WorkerStopped

datatype worker_status = Waiting | Stopped

record 's worker =
  outside :: 's
  events :: "worker_event list"
  tasks_done :: nat
  status :: worker_status

definition emit :: "worker_event \<Rightarrow> 's worker \<Rightarrow> 's worker" where
  "emit ev w = w\<lparr>events := events w @ [ev]\<rparr>"

definition task_done :: "'s worker \<Rightarrow> 's worker" where
  "task_done w = w\<lparr>tasks_done := Suc (tasks_done w)\<rparr>"

definition default_callback :: "'r \<Rightarrow> 's \<Rightarrow> exn option \<times> 's" where
  "default_callback res s = (None, s)"

definition run_task ::
  "('a \<Rightarrow> exn option) \<Rightarrow> ('a, 'r, 's) task \<Rightarrow> 's worker \<Rightarrow> 's worker" where
  "run_task format_args t w =
     (let cb = (case callback t of None \<Rightarrow> default_callback | Some c \<Rightarrow> c)
      in task_done
           (case func_name t of
              None \<Rightarrow> emit (ErrorHandled (AttributeError ''__name__'')) w
            | Some nm \<Rightarrow>
                (case format_args (args t) of
                   Some err \<Rightarrow> emit (ErrorHandled err) w
                 | None \<Rightarrow>
                     (let w1 = emit TaskStarted w
                      in case func t (args t) of
                           Inl err \<Rightarrow> emit (ErrorHandled err) w1
                         | Inr res \<Rightarrow>
                             (case cb res (outside w1) of
                                (None, s') \<Rightarrow>
                                  emit TaskCompleted ((emit CallbackCalled w1)\<lparr>outside := s'\<rparr>)
                              | (Some err, s') \<Rightarrow>
                                  emit (ErrorHandled err)
                                    ((emit CallbackCalled w1)\<lparr>outside := s'\<rparr>))))))"

fun run ::
  "('a \<Rightarrow> exn option) \<Rightarrow> ('a, 'r, 's) task option list \<Rightarrow> 's worker \<Rightarrow> 's worker" where
  "run format_args [] w = w\<lparr>status := Waiting\<rparr>"
| "run format_args (None # queue) w = (emit WorkerStopped w)\<lparr>status := Stopped\<rparr>"
| "run format_args (Some t # queue) w = run format_args queue (run_task format_args t w)"

definition callbacks_called :: "'s worker \<Rightarrow> nat" where
  "callbacks_called w = length (filter (\<lambda>ev. ev = CallbackCalled) (events w))"

text \<open>
  The tasks of \<^verbatim>\<open>cli.py\<close> for the two integer operations carry \<^verbatim>\<open>{"n": data.n}\<close> as
  \<^verbatim>\<open>args\<close>; formatting it raises when the integer has too many digits.
\<close>

definition format_n :: "nat \<Rightarrow> int \<Rightarrow> exn option" where
  "format_n max_str_digits v = fstring_error max_str_digits [v]"

text \<open>
  What the specification asks of the worker, stated without the loop: a task is
  \<^emph>\<open>executed\<close> when its operation is called and returns; its result is then delivered to
  its callback, in the order of the queue; a task whose operation is not called or
  raises delivers nothing. \<open>delivered\<close> is the state outside the worker after the tasks
  of a queue without exit signal.
\<close>

definition operation_result :: "('a \<Rightarrow> exn option) \<Rightarrow> ('a, 'r, 's) task \<Rightarrow> exn + 'r" where
  "operation_result format_args t =
     (case func_name t of
        None \<Rightarrow> Inl (AttributeError ''__name__'')
      | Some nm \<Rightarrow>
          (case format_args (args t) of
             Some err \<Rightarrow> Inl err
           | None \<Rightarrow> func t (args t)))"

definition executed :: "('a \<Rightarrow> exn option) \<Rightarrow> ('a, 'r, 's) task \<Rightarrow> bool" where
  "executed format_args t = (case operation_result format_args t of Inl err \<Rightarrow> False | Inr res \<Rightarrow> True)"

definition deliver :: "('a \<Rightarrow> exn option) \<Rightarrow> ('a, 'r, 's) task \<Rightarrow> 's \<Rightarrow> 's" where
  "deliver format_args t s =
     (case operation_result format_args t of
        Inl err \<Rightarrow> s
      | Inr res \<Rightarrow>
          (case callback t of
             None \<Rightarrow> s
           | Some c \<Rightarrow> snd (c res s)))"

definition delivered :: "('a \<Rightarrow> exn option) \<Rightarrow> ('a, 'r, 's) task list \<Rightarrow> 's \<Rightarrow> 's" where
  "delivered format_args ts s = fold (deliver format_args) ts s"

section \<open>Reading the table\<close>

text \<open>
  A row is the newest of its fingerprint when no row of the table with the same
  (operation, input) has a greater timestamp.
\<close>

definition newest_of_fingerprint :: "operation_row list \<Rightarrow> operation_row \<Rightarrow> bool" where
  "newest_of_fingerprint rows r =
     list_all (\<lambda>r'. if fingerprint r' = fingerprint r then row_timestamp r' \<le> row_timestamp r
                     else True) rows"

section \<open>Concrete runs\<close>

text \<open>
  For runs on concrete values the parameters are given values: floats that hold whole
  numbers, written with one decimal; a \<^verbatim>\<open>json.loads\<close> that accepts every text and stands
  for the parsed value by the text; the default digit limit. The runs below use the
  integer operations only and do not depend on the choice.
\<close>

definition example_library :: "(int, string) library" where
  "example_library =
     \<lparr>lib_power = (\<lambda>x y. if 0 \<le> y then Inr (x ^ nat y)
                          else Inl (OtherException ''ZeroDivisionError'')),
      lib_factorial = (\<lambda>v. if v < 0 then Inl (ValueError ''Factorial not defined for negative numbers'')
                            else Inr (int (fact (nat v)))),
      lib_dump_float = (\<lambda>x. str_int x @ ''.0''),
      lib_json_loads = (\<lambda>text. Inr text),
      lib_max_str_digits = 4300\<rparr>"

text \<open>
  A process that has just started on an empty table, and the same request sent twice
  with a cache clear in between, both saves reading the same value from the clock.
\<close>

definition fresh_state :: state where
  "fresh_state = \<lparr>memory_cache = Map.empty, operations_table = []\<rparr>"

definition at_time :: "string \<Rightarrow> env" where
  "at_time utcnow = \<lparr>env_utcnow = utcnow, env_db_fault = None\<rparr>"

definition repeated_request_same_clock :: "(env \<times> 'f request) list" where
  "repeated_request_same_clock =
     [(at_time ''2025-03-01T09:00:00.015625'', PostFibonacci 5),
      (at_time ''2025-03-01T09:00:00.015625'', PostCacheClear),
      (at_time ''2025-03-01T09:00:00.015625'', PostFibonacci 5)]"

text \<open>
  The same request sent twice with nothing in between, SQLite failing at the first
  save.
\<close>

definition repeated_request_failed_save :: "(env \<times> 'f request) list" where
  "repeated_request_failed_save =
     [(\<lparr>env_utcnow = ''2025-03-01T09:00:00.000000'',
        env_db_fault = Some (OperationalError ''database is locked'')\<rparr>, PostFibonacci 5),
      (at_time ''2025-03-01T09:00:01.000000'', PostFibonacci 5)]"

text \<open>
  The table after the three saves of the repository's test
  \<^verbatim>\<open>test_get_unique_operations\<close>, the two \<^verbatim>\<open>pow\<close> saves reading the same value from the
  clock.
\<close>

definition repeated_save_same_clock :: "operation_row list" where
  \<open>repeated_save_same_clock =
     [\<lparr>row_operation = ''pow'', row_input = ''{"x": 2, "y": 3}'',
       row_result = ''{"result": 8}'', row_timestamp = ''2025-03-01T09:00:00.015625''\<rparr>,
      \<lparr>row_operation = ''pow'', row_input = ''{"x": 2, "y": 3}'',
       row_result = ''{"result": 8}'', row_timestamp = ''2025-03-01T09:00:00.015625''\<rparr>,
      \<lparr>row_operation = ''factorial'', row_input = ''{"n": 5}'',
       row_result = ''{"result": 120}'', row_timestamp = ''2025-03-01T09:00:00.031250''\<rparr>]\<close>

text \<open>
  Two rows whose (operation, input) pairs differ and whose concatenations agree. No
  handler writes such rows.
\<close>

definition colliding_concatenation :: "operation_row list" where
  "colliding_concatenation =
     [\<lparr>row_operation = ''ab'', row_input = ''c'', row_result = ''r1'',
       row_timestamp = ''2025-03-01T09:00:00.000000''\<rparr>,
      \<lparr>row_operation = ''a'', row_input = ''bc'', row_result = ''r2'',
       row_timestamp = ''2025-03-01T09:00:01.000000''\<rparr>]"

section \<open>Properties of fibonacci\<close>

lemma fib_loop_last_step:
  "fib_loop (Suc k) a b = (snd (fib_loop k a b), fst (fib_loop k a b) + snd (fib_loop k a b))"
proof (induction k arbitrary: a b)
  case 0
  show ?case by simp
next
  case (Suc k)
  from Suc.IH [of b "a + b"] show ?case by simp
qed

lemma fibonacci_as_fst:
  assumes "0 \<le> n"
  shows "fibonacci n = Inr (fst (fib_loop (nat n) 0 1))"
proof -
  consider "n = 0" | "n = 1" | "2 \<le> n" using assms by linarith
  then show ?thesis
  proof cases
    case 1
    then show ?thesis by (simp add: fibonacci_def)
  next
    case 2
    then show ?thesis by (simp add: fibonacci_def)
  next
    case 3
    define k where "k = nat (n - 1)"
    have k: "nat n = Suc k" "nat (n - 1) = k"
      using 3 by (auto simp: k_def)
    from 3 have "fibonacci n = Inr (snd (fib_loop k 0 1))"
      by (simp add: fibonacci_def k)
    also have "snd (fib_loop k 0 1) = fst (fib_loop (Suc k) 0 1)"
      by (simp only: fib_loop_last_step fst_conv)
    finally show ?thesis by (simp add: k)
  qed
qed

text \<open>
  C7: \<^verbatim>\<open>fibonacci(0) = 0\<close>, \<^verbatim>\<open>fibonacci(1) = 1\<close>, and for every \<^verbatim>\<open>n \<ge> 2\<close> the three calls
  \<^verbatim>\<open>fibonacci(n-1)\<close>, \<^verbatim>\<open>fibonacci(n-2)\<close> and \<^verbatim>\<open>fibonacci(n)\<close> all return, the last value
  being the sum of the first two. The function is the iterative loop
  \<^verbatim>\<open>(a, b) \<leftarrow> (b, a + b)\<close> of the source.
\<close>

theorem fibonacci_recurrence:
  "fibonacci 0 = Inr 0 \<and> fibonacci 1 = Inr 1 \<and>
   (\<forall>n\<ge>2. \<exists>x y. fibonacci (n - 1) = Inr x \<and> fibonacci (n - 2) = Inr y \<and>
                  fibonacci n = Inr (x + y))"
proof (intro conjI allI impI)
  show "fibonacci 0 = Inr 0" by (simp add: fibonacci_def)
  show "fibonacci 1 = Inr 1" by (simp add: fibonacci_def)
  fix n :: int
  assume n: "2 \<le> n"
  define k where "k = nat (n - 2)"
  have k: "nat (n - 2) = k" "nat (n - 1) = Suc k" "nat n = Suc (Suc k)"
    using n by (auto simp: k_def)
  have f2: "fibonacci (n - 2) = Inr (fst (fib_loop k 0 1))"
    using n fibonacci_as_fst [of "n - 2"] by (simp add: k)
  have f1: "fibonacci (n - 1) = Inr (fst (fib_loop (Suc k) 0 1))"
    using n fibonacci_as_fst [of "n - 1"] by (simp add: k)
  have f0: "fibonacci n = Inr (fst (fib_loop (Suc (Suc k)) 0 1))"
    using n fibonacci_as_fst [of n] by (simp add: k)
  have "fst (fib_loop (Suc (Suc k)) 0 1) = snd (fib_loop (Suc k) 0 1)"
    by (simp only: fib_loop_last_step [of "Suc k"] fst_conv)
  also have "\<dots> = fst (fib_loop k 0 1) + snd (fib_loop k 0 1)"
    by (simp only: fib_loop_last_step [of k] snd_conv)
  also have "snd (fib_loop k 0 1) = fst (fib_loop (Suc k) 0 1)"
    by (simp only: fib_loop_last_step [of k] fst_conv)
  finally have "fst (fib_loop (Suc (Suc k)) 0 1)
      = fst (fib_loop (Suc k) 0 1) + fst (fib_loop k 0 1)"
    by simp
  with f0 f1 f2
  show "\<exists>x y. fibonacci (n - 1) = Inr x \<and> fibonacci (n - 2) = Inr y \<and>
              fibonacci n = Inr (x + y)"
    by simp
qed

theorem fibonacci_recurrence_witness:
  "(2::int) \<le> 10 \<and> fibonacci 9 = Inr 34 \<and> fibonacci 8 = Inr 21 \<and> fibonacci 10 = Inr 55"
proof -
  have h: "(2::int) \<le> 10" by simp
  from fibonacci_recurrence have
    "\<exists>x y. fibonacci (10 - 1) = Inr x \<and> fibonacci (10 - 2) = Inr y \<and>
           fibonacci 10 = Inr (x + y)"
    using h by blast
  moreover have "fibonacci 9 = Inr 34" "fibonacci 8 = Inr 21"
    by (simp_all add: fibonacci_def eval_nat_numeral)
  ultimately show ?thesis using h by auto
qed

section \<open>Properties of the cache\<close>

lemma cache_run_keeps:
  "list_all (\<lambda>k. k \<noteq> Clear \<and> \<not> stores_to f k) calls \<Longrightarrow> cache_run c calls f = c f"
  unfolding cache_run_def
proof (induction calls arbitrary: c)
  case Nil
  show ?case by simp
next
  case (Cons k calls)
  then have "foldl cache_step (cache_step c k) calls f = cache_step c k f" by simp
  moreover from Cons.prems have "cache_step c k f = c f"
    by (cases k) (auto simp: set_in_cache_def)
  ultimately show ?case by simp
qed

lemma cache_run_stays_absent:
  "c f = None \<Longrightarrow> list_all (\<lambda>k. \<not> stores_to f k) calls \<Longrightarrow> cache_run c calls f = None"
  unfolding cache_run_def
proof (induction calls arbitrary: c)
  case Nil
  then show ?case by simp
next
  case (Cons k calls)
  from Cons.prems have "cache_step c k f = None"
    by (cases k) (auto simp: set_in_cache_def clear_cache_def)
  with Cons show ?case by simp
qed

lemma clear_cache_funpow: "(clear_cache ^^ Suc k) c = Map.empty"
  by (simp add: clear_cache_def)

text \<open>
  C3: after \<^verbatim>\<open>set_in_cache(op, inp, v)\<close>, \<^verbatim>\<open>get_from_cache(op, inp)\<close> returns \<^verbatim>\<open>v\<close>; a second
  store under the same key overwrites, so that the lookup returns the second value; and
  the stored value is still returned after any sequence of cache calls that contains
  neither a clear nor a store under this key (lookups, and stores under other keys).
\<close>

theorem cache_store_then_lookup:
  "get_from_cache operation input_data (set_in_cache operation input_data v c) = Some v \<and>
   get_from_cache operation input_data
     (set_in_cache operation input_data v2 (set_in_cache operation input_data v1 c)) = Some v2 \<and>
   (\<forall>calls. list_all (\<lambda>k. k \<noteq> Clear \<and> \<not> stores_to (operation, input_data) k) calls \<longrightarrow>
      get_from_cache operation input_data
        (cache_run (set_in_cache operation input_data v c) calls) = Some v)"
  by (simp add: get_from_cache_def cache_run_keeps) (simp add: set_in_cache_def)

theorem cache_store_then_lookup_witness:
  "list_all (\<lambda>k. k \<noteq> Clear \<and> \<not> stores_to (''fibonacci'', ''in'') k)
      [Get ''fibonacci'' ''in'', Set ''pow'' ''in'' ''256'', Get ''pow'' ''in''] \<and>
   get_from_cache ''fibonacci'' ''in''
     (cache_run (set_in_cache ''fibonacci'' ''in'' ''55'' Map.empty)
        [Get ''fibonacci'' ''in'', Set ''pow'' ''in'' ''256'', Get ''pow'' ''in'']) = Some ''55''"
  using cache_store_then_lookup [of "''fibonacci''" "''in''" "''55''" Map.empty]
  by simp

text \<open>
  C4: after \<^verbatim>\<open>clear_cache()\<close> the lookup of any key returns \<^verbatim>\<open>None\<close>, and keeps returning
  \<^verbatim>\<open>None\<close> after any sequence of cache calls that does not store under this key (further
  clears, lookups, stores under other keys); one or more clears in a row leave the
  empty dictionary; once the key is stored again, the lookup returns the new value.
\<close>

theorem clear_cache_absent_until_restored:
  "get_from_cache operation input_data (clear_cache c) = None \<and>
   (\<forall>calls. list_all (\<lambda>k. \<not> stores_to (operation, input_data) k) calls \<longrightarrow>
      get_from_cache operation input_data (cache_run (clear_cache c) calls) = None) \<and>
   (\<forall>k. (clear_cache ^^ Suc k) c = Map.empty) \<and>
   get_from_cache operation input_data
     (set_in_cache operation input_data v (clear_cache c)) = Some v"
proof (intro conjI allI impI)
  show "get_from_cache operation input_data (clear_cache c) = None"
    by (simp add: get_from_cache_def clear_cache_def)
  show "get_from_cache operation input_data (cache_run (clear_cache c) calls) = None"
    if "list_all (\<lambda>k. \<not> stores_to (operation, input_data) k) calls" for calls
    using that by (simp add: get_from_cache_def cache_run_stays_absent clear_cache_def)
  show "(clear_cache ^^ Suc k) c = Map.empty" for k
    by (rule clear_cache_funpow)
  show "get_from_cache operation input_data
     (set_in_cache operation input_data v (clear_cache c)) = Some v"
    by (simp add: get_from_cache_def set_in_cache_def)
qed

theorem clear_cache_absent_until_restored_witness:
  "list_all (\<lambda>k. \<not> stores_to (''fibonacci'', ''in'') k)
      [Set ''pow'' ''in'' ''256'', Clear, Get ''fibonacci'' ''in''] \<and>
   get_from_cache ''fibonacci'' ''in''
     (cache_run (clear_cache (set_in_cache ''fibonacci'' ''in'' ''55'' Map.empty))
        [Set ''pow'' ''in'' ''256'', Clear, Get ''fibonacci'' ''in'']) = None"
  using clear_cache_absent_until_restored
    [of "''fibonacci''" "''in''" "set_in_cache ''fibonacci'' ''in'' ''55'' Map.empty"]
  by simp

section \<open>Properties of the operation on rejected and accepted input\<close>

text \<open>
  C8: for every negative \<^verbatim>\<open>n\<close>, \<^verbatim>\<open>fibonacci(n)\<close> raises the \<^verbatim>\<open>ValueError\<close> and returns no
  value. Each caller surfaces the failure once and does not call again: the input model
  rejects the request; the REST handler, entered with such an argument and nothing
  cached for it, answers with the HTTP error and leaves cache and table as they were;
  the worker, given the task that \<^verbatim>\<open>cli.py\<close> builds, hands one exception to the handler
  (the operation's, or the one raised by formatting an argument of too many digits, in
  which case the operation is not called), marks the task done and does not put it
  back.
\<close>

theorem fibonacci_negative_raises:
  assumes "n < 0"
  shows "fibonacci n = Inl (ValueError ''Fibonacci not defined for negative numbers'') \<and>
         (\<exists>err. new_FibonacciInput n = Inl err) \<and>
         (\<forall>json_loads max_str_digits e st.
            \<not> py_truthy (get_from_cache ''fibonacci'' (dump_FibonacciInput \<lparr>fi_n = n\<rparr>)
                           (memory_cache st)) \<longrightarrow>
            calculate_fibonacci json_loads max_str_digits \<lparr>fi_n = n\<rparr> e st
              = (Inl (HTTPException 500 eroare_interna), st)) \<and>
         (\<forall>max_str_digits cb (w :: 's worker).
            run_task (format_n max_str_digits)
                \<lparr>func = fibonacci, func_name = Some ''fibonacci'', args = n, callback = cb\<rparr> w
              = (if exceeds_str_digits max_str_digits n
                 then task_done (emit (ErrorHandled (str_digits_error max_str_digits)) w)
                 else task_done (emit (ErrorHandled
                        (ValueError ''Fibonacci not defined for negative numbers''))
                      (emit TaskStarted w))))"
  using assms
  by (simp add: fibonacci_def new_FibonacciInput_def calculate_fibonacci_def run_task_def
      internal_error_def format_n_def)

theorem fibonacci_negative_raises_witness:
  "(- 1 :: int) < 0 \<and>
   fibonacci (- 1) = Inl (ValueError ''Fibonacci not defined for negative numbers'') \<and>
   calculate_fibonacci (\<lambda>text. Inr text) 4300 \<lparr>fi_n = - 1\<rparr>
       (at_time ''2024-05-01T10:00:00.000001'') fresh_state
     = (Inl (HTTPException 500 eroare_interna), fresh_state)"
proof -
  have h: "(- 1 :: int) < 0" by simp
  have miss: "\<not> py_truthy (get_from_cache ''fibonacci'' (dump_FibonacciInput \<lparr>fi_n = - 1\<rparr>)
                           (memory_cache fresh_state))"
    by (simp add: py_truthy_def get_from_cache_def fresh_state_def)
  from fibonacci_negative_raises [OF h] miss show ?thesis
    using h by blast
qed

text \<open>
  C10: a value accepted by \<^verbatim>\<open>FibonacciInput\<close> (\<^verbatim>\<open>ge=0\<close>) is not negative, and under that
  precondition \<^verbatim>\<open>fibonacci\<close> does not take the branch that raises: the call returns a
  value.
\<close>

theorem validated_fibonacci_never_raises:
  assumes "new_FibonacciInput v = Inr data"
  shows "fi_n data = v \<and> 0 \<le> fi_n data \<and> (\<exists>r. fibonacci (fi_n data) = Inr r)"
proof -
  from assms have "fi_n data = v" "0 \<le> fi_n data"
    by (auto simp: new_FibonacciInput_def split: if_splits)
  then show ?thesis
    using fibonacci_as_fst by blast
qed

theorem validated_fibonacci_never_raises_witness:
  "new_FibonacciInput 10 = Inr \<lparr>fi_n = 10\<rparr> \<and> fibonacci (fi_n \<lparr>fi_n = 10\<rparr>) = Inr 55"
proof -
  have h: "new_FibonacciInput 10 = Inr \<lparr>fi_n = 10\<rparr>"
    by (simp add: new_FibonacciInput_def)
  from validated_fibonacci_never_raises [OF h]
  obtain r where "fibonacci (fi_n \<lparr>fi_n = 10\<rparr>) = Inr r" by blast
  moreover have "fibonacci 10 = Inr 55"
    by (simp add: fibonacci_def eval_nat_numeral)
  ultimately show ?thesis using h by simp
qed

section \<open>Properties of the worker loop\<close>

lemma run_task_failing:
  assumes "func_name t = Some nm" "format_args (args t) = None" "func t (args t) = Inl err"
  shows "run_task format_args t w = task_done (emit (ErrorHandled err) (emit TaskStarted w))"
  using assms by (simp add: run_task_def)

lemma outside_run_task: "outside (run_task format_args t w) = deliver format_args t (outside w)"
  by (simp add: run_task_def deliver_def operation_result_def default_callback_def emit_def
      task_done_def Let_def split: option.splits sum.splits prod.splits)

lemma callbacks_run_task:
  "callbacks_called (run_task format_args t w)
     = callbacks_called w + (if executed format_args t then 1 else 0)"
  by (simp add: run_task_def executed_def operation_result_def callbacks_called_def emit_def
      task_done_def Let_def split: option.splits sum.splits prod.splits)

lemma tasks_done_run_task: "tasks_done (run_task format_args t w) = Suc (tasks_done w)"
  by (simp add: run_task_def emit_def task_done_def Let_def
      split: option.splits sum.splits prod.splits)

lemma run_append:
  "run format_args (map Some pre @ queue) w
     = run format_args queue (fold (run_task format_args) pre w)"
  by (induction pre arbitrary: w) simp_all

lemma outside_run:
  "outside (run format_args (map Some ts) w) = delivered format_args ts (outside w)"
  by (induction ts arbitrary: w) (simp_all add: delivered_def outside_run_task)

lemma callbacks_run:
  "callbacks_called (run format_args (map Some ts) w)
     = callbacks_called w + length (filter (executed format_args) ts)"
  by (induction ts arbitrary: w) (simp_all add: callbacks_called_def callbacks_run_task [unfolded callbacks_called_def])

lemma tasks_done_run:
  "tasks_done (run format_args (map Some ts) w) = tasks_done w + length ts"
  by (induction ts arbitrary: w) (simp_all add: tasks_done_run_task)

lemma status_run: "status (run format_args (map Some ts) w) = Waiting"
  by (induction ts arbitrary: w) simp_all

text \<open>
  C9: when the operation of a task raises, wherever the task stands in the queue, the
  worker catches the exception (the handler's entry is its only trace besides the
  start), does not enter the callback, and goes on with the rest of the queue from that
  state. Every other task of the queue is still executed: the state outside the worker
  ends as the results of the tasks before and after the failing one, delivered to their
  callbacks in order, leave it; the callbacks entered are those of the tasks whose
  operation returned; every task is marked done; and with no exit signal in the queue
  the worker ends waiting for the next item.
\<close>

theorem worker_survives_failing_task:
  assumes "func_name t = Some nm"
    and "format_args (args t) = None"
    and "func t (args t) = Inl err"
  shows "run_task format_args t w = task_done (emit (ErrorHandled err) (emit TaskStarted w)) \<and>
         (\<forall>pre queue.
            run format_args (map Some pre @ Some t # queue) w
              = run format_args queue
                  (task_done (emit (ErrorHandled err)
                     (emit TaskStarted (fold (run_task format_args) pre w))))) \<and>
         (\<forall>pre post.
            outside (run format_args (map Some pre @ Some t # map Some post) w)
              = delivered format_args post (delivered format_args pre (outside w)) \<and>
            callbacks_called (run format_args (map Some pre @ Some t # map Some post) w)
              = callbacks_called w + length (filter (executed format_args) pre)
                  + length (filter (executed format_args) post) \<and>
            tasks_done (run format_args (map Some pre @ Some t # map Some post) w)
              = tasks_done w + length pre + 1 + length post \<and>
            status (run format_args (map Some pre @ Some t # map Some post) w) = Waiting)"
proof (intro conjI allI)
  have rt: "run_task format_args t w' = task_done (emit (ErrorHandled err) (emit TaskStarted w'))"
    for w'
    using assms by (rule run_task_failing)
  have not_executed: "\<not> executed format_args t"
    using assms by (simp add: executed_def operation_result_def)
  have unchanged: "deliver format_args t s = s" for s
    using assms by (simp add: deliver_def operation_result_def)
  show "run_task format_args t w = task_done (emit (ErrorHandled err) (emit TaskStarted w))"
    by (rule rt)
  show "run format_args (map Some pre @ Some t # queue) w
      = run format_args queue
          (task_done (emit (ErrorHandled err)
             (emit TaskStarted (fold (run_task format_args) pre w))))" for pre queue
    by (simp add: run_append rt)
  fix pre post
  let ?q = "map Some pre @ Some t # map Some post"
  have q: "?q = map Some (pre @ t # post)" by simp
  show "outside (run format_args ?q w)
      = delivered format_args post (delivered format_args pre (outside w))"
    unfolding q outside_run by (simp add: delivered_def unchanged)
  show "callbacks_called (run format_args ?q w)
      = callbacks_called w + length (filter (executed format_args) pre)
          + length (filter (executed format_args) post)"
    unfolding q callbacks_run using not_executed by simp
  show "tasks_done (run format_args ?q w) = tasks_done w + length pre + 1 + length post"
    unfolding q tasks_done_run by simp
  show "status (run format_args ?q w) = Waiting"
    unfolding q by (rule status_run)
qed

theorem worker_survives_failing_task_witness:
  "func_name \<lparr>func = fibonacci, func_name = Some ''fibonacci'', args = - 1,
              callback = Some (\<lambda>r s. (None, r # s))\<rparr> = Some ''fibonacci'' \<and>
   format_n 4300 (args \<lparr>func = fibonacci, func_name = Some ''fibonacci'', args = - 1,
              callback = Some (\<lambda>r s. (None, r # s))\<rparr>) = None \<and>
   func \<lparr>func = fibonacci, func_name = Some ''fibonacci'', args = - 1,
         callback = Some (\<lambda>r s. (None, r # s))\<rparr>
     (args \<lparr>func = fibonacci, func_name = Some ''fibonacci'', args = - 1,
            callback = Some (\<lambda>r s. (None, r # s))\<rparr>)
     = Inl (ValueError ''Fibonacci not defined for negative numbers'') \<and>
   outside (run (format_n 4300)
     [Some \<lparr>func = fibonacci, func_name = Some ''fibonacci'', args = 3,
            callback = Some (\<lambda>r s. (None, r # s))\<rparr>,
      Some \<lparr>func = fibonacci, func_name = Some ''fibonacci'', args = - 1,
            callback = Some (\<lambda>r s. (None, r # s))\<rparr>,
      Some \<lparr>func = fibonacci, func_name = Some ''fibonacci'', args = 10,
            callback = Some (\<lambda>r s. (None, r # s))\<rparr>]
     \<lparr>outside = [], events = [], tasks_done = 0, status = Waiting\<rparr>) = [55, 2]"
proof -
  let ?cb = "Some (\<lambda>r s. (None, r # s)) :: (int \<Rightarrow> int list \<Rightarrow> exn option \<times> int list) option"
  let ?task = "\<lambda>v. \<lparr>func = fibonacci, func_name = Some ''fibonacci'', args = v, callback = ?cb\<rparr>"
  let ?w = "\<lparr>outside = [] :: int list, events = [], tasks_done = 0, status = Waiting\<rparr>"
  have fmt: "format_n 4300 3 = None" "format_n 4300 (- 1) = None" "format_n 4300 10 = None"
    by (simp_all add: format_n_def exceeds_str_digits_def str_nat.simps)
  have h1: "func_name (?task (- 1)) = Some ''fibonacci''" by simp
  have h2: "format_n 4300 (args (?task (- 1))) = None" by (simp add: fmt)
  have h3: "func (?task (- 1)) (args (?task (- 1)))
      = Inl (ValueError ''Fibonacci not defined for negative numbers'')"
    by (simp add: fibonacci_def)
  have three: "fibonacci 3 = Inr 2" and ten: "fibonacci 10 = Inr 55"
    by (simp_all add: fibonacci_def eval_nat_numeral)
  from worker_survives_failing_task
         [where format_args = "format_n 4300" and t = "?task (- 1)" and w = ?w, OF h1 h2 h3]
  have "outside (run (format_n 4300)
           (map Some [?task 3] @ Some (?task (- 1)) # map Some [?task 10]) ?w)
      = delivered (format_n 4300) [?task 10] (delivered (format_n 4300) [?task 3] (outside ?w))"
    by blast
  also have "\<dots> = [55, 2]"
    by (simp add: delivered_def deliver_def operation_result_def fmt three ten)
  finally have "outside (run (format_n 4300) [Some (?task 3), Some (?task (- 1)), Some (?task 10)] ?w)
      = [55, 2]"
    by (simp only: list.map append_Cons append_Nil)
  with h1 h2 h3 show ?thesis by blast
qed

section \<open>Properties of the request handlers\<close>

lemma valid_returns:
  assumes "new_FibonacciInput v = Inr data"
  shows "\<exists>res. fibonacci (fi_n data) = Inr res"
proof -
  from assms have "0 \<le> fi_n data"
    by (auto simp: new_FibonacciInput_def split: if_splits)
  then show ?thesis using fibonacci_as_fst by blast
qed

lemma dump_results_nonempty:
  "dump_FibonacciResult fib_out \<noteq> []"
  "dump_FactorialResult fact_out \<noteq> []"
  "dump_PowResult dump_float pow_out \<noteq> []"
  by (simp_all add: dump_FibonacciResult_def dump_FactorialResult_def dump_PowResult_def)

lemma handler_effect_none: "handler_effect k e st st"
  by (simp add: handler_effect_def)

lemma handler_effect_cached:
  assumes "\<not> py_truthy (memory_cache st k)" "res \<noteq> []"
  shows "handler_effect k e st (st\<lparr>memory_cache := (memory_cache st)(k \<mapsto> res)\<rparr>)"
  using assms unfolding handler_effect_def by auto

lemma handler_effect_saved:
  assumes "\<not> py_truthy (memory_cache st k)" "res \<noteq> []" "env_db_fault e = None"
  shows "handler_effect k e st
           (st\<lparr>memory_cache := (memory_cache st)(k \<mapsto> res),
               operations_table := operations_table st @
                 [\<lparr>row_operation = fst k, row_input = snd k, row_result = res,
                   row_timestamp = env_utcnow e\<rparr>]\<rparr>)"
  using assms unfolding handler_effect_def by auto

lemma calculate_fibonacci_effect:
  "handler_effect (''fibonacci'', dump_FibonacciInput data) e st
     (snd (calculate_fibonacci json_loads max_str_digits data e st))"
proof (cases "py_truthy (memory_cache st (''fibonacci'', dump_FibonacciInput data))")
  case True
  then show ?thesis
    by (simp add: calculate_fibonacci_def handler_effect_def get_from_cache_def
        split: option.splits sum.splits)
next
  case False
  show ?thesis
  proof (cases "fibonacci (fi_n data)")
    case (Inl err)
    with False show ?thesis
      by (simp add: calculate_fibonacci_def get_from_cache_def handler_effect_none)
  next
    case (Inr res)
    let ?rj = "dump_FibonacciResult (new_FibonacciResult (fi_n data) res)"
    from handler_effect_cached [OF False dump_results_nonempty(1), where e = e]
      handler_effect_saved [OF False dump_results_nonempty(1), where e = e]
    show ?thesis
      using False Inr
      by (cases "env_db_fault e")
         (simp_all add: calculate_fibonacci_def get_from_cache_def set_in_cache_def
            save_operation_def Let_def split: option.splits)
  qed
qed

lemma calculate_factorial_effect:
  "handler_effect (''factorial'', dump_FactorialInput data) e st
     (snd (calculate_factorial factorial json_loads max_str_digits data e st))"
proof (cases "py_truthy (memory_cache st (''factorial'', dump_FactorialInput data))")
  case True
  then show ?thesis
    by (simp add: calculate_factorial_def handler_effect_def get_from_cache_def
        split: option.splits sum.splits)
next
  case False
  show ?thesis
  proof (cases "factorial (fa_n data)")
    case (Inl err)
    with False show ?thesis
      by (simp add: calculate_factorial_def get_from_cache_def handler_effect_none)
  next
    case (Inr res)
    from handler_effect_cached [OF False dump_results_nonempty(2), where e = e]
      handler_effect_saved [OF False dump_results_nonempty(2), where e = e]
    show ?thesis
      using False Inr
      by (cases "env_db_fault e")
         (simp_all add: calculate_factorial_def get_from_cache_def set_in_cache_def
            save_operation_def Let_def split: option.splits)
  qed
qed

lemma calculate_pow_effect:
  "handler_effect (''pow'', dump_PowInput dump_float data) e st
     (snd (calculate_pow power_fn dump_float json_loads data e st))"
proof (cases "py_truthy (memory_cache st (''pow'', dump_PowInput dump_float data))")
  case True
  then show ?thesis
    by (simp add: calculate_pow_def handler_effect_def get_from_cache_def
        split: option.splits sum.splits)
next
  case False
  show ?thesis
  proof (cases "power_fn (pi_x data) (pi_y data)")
    case (Inl err)
    with False show ?thesis
      by (simp add: calculate_pow_def get_from_cache_def handler_effect_none)
  next
    case (Inr res)
    from handler_effect_cached [OF False dump_results_nonempty(3), where e = e]
      handler_effect_saved [OF False dump_results_nonempty(3), where e = e]
    show ?thesis
      using False Inr
      by (cases "env_db_fault e")
         (simp_all add: calculate_pow_def get_from_cache_def set_in_cache_def
            save_operation_def Let_def split: option.splits)
  qed
qed

lemma handle_request_effect:
  assumes "fingerprint_of lib q = Some k"
  shows "handler_effect k e st (handle_request lib e st q)"
proof (cases q)
  case (PostPow x y)
  with assms show ?thesis by (auto simp: calculate_pow_effect)
next
  case (PostFactorial v)
  with assms show ?thesis
    by (cases "new_FactorialInput v") (auto simp: calculate_factorial_effect)
next
  case (PostFibonacci v)
  with assms show ?thesis
    by (cases "new_FibonacciInput v") (auto simp: calculate_fibonacci_effect)
next
  case PostCacheClear
  with assms show ?thesis by simp
qed

lemma handle_request_rejected:
  assumes "fingerprint_of lib q = None" "q \<noteq> PostCacheClear"
  shows "handle_request lib e st q = st"
  using assms by (cases q) (auto split: sum.splits)

lemma effect_wrote:
  assumes "handler_effect k e st st'" "operations_table st' \<noteq> operations_table st"
  shows "\<exists>res. res \<noteq> [] \<and> memory_cache st' k = Some res \<and> env_db_fault e = None \<and>
           operations_table st' = operations_table st @
             [\<lparr>row_operation = fst k, row_input = snd k, row_result = res,
               row_timestamp = env_utcnow e\<rparr>]"
  using assms unfolding handler_effect_def by (auto split: if_splits)

lemma effect_hit:
  assumes "handler_effect k e st st'" "memory_cache st k = Some c" "c \<noteq> []"
  shows "st' = st"
  using assms unfolding handler_effect_def by (simp add: py_truthy_def)

lemma effect_keeps:
  assumes eff: "handler_effect k e st st'"
    and c: "memory_cache st f = Some c" "c \<noteq> []"
  shows "memory_cache st' f = Some c \<and>
         records_for f (operations_table st') = records_for f (operations_table st)"
proof (cases "k = f")
  case True
  with eff c have "st' = st" by (simp add: effect_hit)
  with c show ?thesis by simp
next
  case False
  then have fp: "fingerprint \<lparr>row_operation = fst k, row_input = snd k, row_result = res,
      row_timestamp = t\<rparr> \<noteq> f" for res t
    by (auto simp: fingerprint_def)
  from eff c False show ?thesis
    unfolding handler_effect_def
    by (auto simp: records_for_def fp split: if_splits)
qed

lemma handle_request_keeps:
  assumes c: "memory_cache st f = Some c" "c \<noteq> []"
    and q: "q \<noteq> PostCacheClear"
  shows "memory_cache (handle_request lib e st q) f = Some c \<and>
         records_for f (operations_table (handle_request lib e st q))
           = records_for f (operations_table st)"
proof (cases "fingerprint_of lib q")
  case None
  with q c show ?thesis by (simp add: handle_request_rejected)
next
  case (Some k)
  from effect_keeps [OF handle_request_effect [OF Some] c] show ?thesis .
qed

lemma serve_keeps:
  assumes "memory_cache st f = Some c" "c \<noteq> []"
    and "list_all (\<lambda>eq. \<not> is_cache_clear eq) requests"
  shows "memory_cache (serve lib st requests) f = Some c \<and>
         records_for f (operations_table (serve lib st requests))
           = records_for f (operations_table st)"
  using assms unfolding serve_def
proof (induction requests arbitrary: st)
  case Nil
  then show ?case by simp
next
  case (Cons eq requests)
  obtain e q where eq: "eq = (e, q)" by (cases eq)
  from Cons.prems eq have q: "q \<noteq> PostCacheClear" by (simp add: is_cache_clear_def)
  note k = handle_request_keeps [OF Cons.prems(1,2) q, of lib e]
  from Cons.IH [of "handle_request lib e st q"] k Cons.prems
  show ?case by (simp add: eq)
qed

lemma wrote_has_fingerprint:
  assumes "operations_table (handle_request lib e st q) \<noteq> operations_table st"
  shows "\<exists>f. fingerprint_of lib q = Some f"
proof (cases "fingerprint_of lib q")
  case None
  show ?thesis
  proof (cases "q = PostCacheClear")
    case True
    with assms show ?thesis by (simp add: clear_cache_endpoint_def)
  next
    case False
    with None assms show ?thesis by (simp add: handle_request_rejected)
  qed
next
  case (Some f)
  then show ?thesis by simp
qed

text \<open>
  C1: for each of the three operations, a request whose handler writes its record to the
  table, followed, after any requests that do not clear the cache, by the same request
  again: the second request finds the result in the cache and changes nothing, so that
  the table has gained exactly one record of the request's fingerprint, the one written
  by the first request (a table that held none holds exactly one).
\<close>

theorem cache_prevents_duplicate_writes:
  assumes wrote: "operations_table (handle_request lib e1 st q) \<noteq> operations_table st"
    and no_clear: "list_all (\<lambda>eq. \<not> is_cache_clear eq) between"
  shows "let st1 = handle_request lib e1 st q;
             st1' = serve lib st1 between;
             st2 = handle_request lib e2 st1' q
         in \<exists>f row. fingerprint_of lib q = Some f \<and> fingerprint row = f \<and>
                     row_timestamp row = env_utcnow e1 \<and>
                     operations_table st1 = operations_table st @ [row] \<and>
                     records_for f (operations_table st2)
                       = records_for f (operations_table st) @ [row] \<and>
                     (records_for f (operations_table st) = [] \<longrightarrow>
                        length (records_for f (operations_table st2)) = 1) \<and>
                     py_truthy (get_from_cache (fst f) (snd f) (memory_cache st1')) \<and>
                     st2 = st1'"
proof -
  define st1 where "st1 = handle_request lib e1 st q"
  define st1' where "st1' = serve lib st1 between"
  define st2 where "st2 = handle_request lib e2 st1' q"
  from wrote obtain f where f: "fingerprint_of lib q = Some f"
    using wrote_has_fingerprint by blast
  have eff1: "handler_effect f e1 st st1"
    unfolding st1_def using f by (rule handle_request_effect)
  from effect_wrote [OF eff1] wrote obtain res where res: "res \<noteq> []"
    and c1: "memory_cache st1 f = Some res"
    and t1: "operations_table st1 = operations_table st @
        [\<lparr>row_operation = fst f, row_input = snd f, row_result = res,
          row_timestamp = env_utcnow e1\<rparr>]"
    unfolding st1_def by blast
  let ?row = "\<lparr>row_operation = fst f, row_input = snd f, row_result = res,
               row_timestamp = env_utcnow e1\<rparr>"
  from serve_keeps [OF c1 res no_clear, where lib = lib]
  have c1': "memory_cache st1' f = Some res"
    and r1': "records_for f (operations_table st1') = records_for f (operations_table st1)"
    by (simp_all add: st1'_def)
  have eff2: "handler_effect f e2 st1' st2"
    unfolding st2_def using f by (rule handle_request_effect)
  have same: "st2 = st1'"
    using eff2 c1' res by (rule effect_hit)
  have fp: "fingerprint ?row = f"
    by (simp add: fingerprint_def)
  have "records_for f (operations_table st1) = records_for f (operations_table st) @ [?row]"
    using fp by (simp add: t1 records_for_def)
  then have recs:
    "records_for f (operations_table st2) = records_for f (operations_table st) @ [?row]"
    by (simp add: same r1')
  have hit: "py_truthy (get_from_cache (fst f) (snd f) (memory_cache st1'))"
    using c1' res by (simp add: get_from_cache_def py_truthy_def)
  have "fingerprint_of lib q = Some f \<and> fingerprint ?row = f \<and>
      row_timestamp ?row = env_utcnow e1 \<and>
      operations_table st1 = operations_table st @ [?row] \<and>
      records_for f (operations_table st2) = records_for f (operations_table st) @ [?row] \<and>
      (records_for f (operations_table st) = [] \<longrightarrow>
         length (records_for f (operations_table st2)) = 1) \<and>
      py_truthy (get_from_cache (fst f) (snd f) (memory_cache st1')) \<and>
      st2 = st1'"
    using f fp t1 recs hit same by simp
  then show ?thesis
    unfolding Let_def st1_def [symmetric] st1'_def [symmetric] st2_def [symmetric]
    by blast
qed

theorem cache_prevents_duplicate_writes_witness:
  "operations_table (handle_request example_library (at_time ''2025-03-01T09:00:00.750000'')
       fresh_state (PostFibonacci 10)) \<noteq> operations_table fresh_state \<and>
   list_all (\<lambda>eq. \<not> is_cache_clear eq)
     [(at_time ''2025-03-01T09:00:01.500000'', PostFibonacci 3 :: int request)] \<and>
   length (records_for (''fibonacci'', dump_FibonacciInput \<lparr>fi_n = 10\<rparr>)
     (operations_table
        (handle_request example_library (at_time ''2025-03-01T09:00:02.250000'')
           (serve example_library
              (handle_request example_library (at_time ''2025-03-01T09:00:00.750000'')
                 fresh_state (PostFibonacci 10))
              [(at_time ''2025-03-01T09:00:01.500000'', PostFibonacci 3)])
           (PostFibonacci 10)))) = 1"
proof -
  let ?e1 = "at_time ''2025-03-01T09:00:00.750000''"
  let ?e2 = "at_time ''2025-03-01T09:00:02.250000''"
  let ?between = "[(at_time ''2025-03-01T09:00:01.500000'', PostFibonacci 3 :: int request)]"
  have h1: "operations_table (handle_request example_library ?e1 fresh_state (PostFibonacci 10))
      \<noteq> operations_table fresh_state"
    by code_simp
  have h2: "list_all (\<lambda>eq. \<not> is_cache_clear eq) ?between"
    by (simp add: is_cache_clear_def)
  have f: "fingerprint_of example_library (PostFibonacci 10)
      = Some (''fibonacci'', dump_FibonacciInput \<lparr>fi_n = 10\<rparr>)"
    by (simp add: new_FibonacciInput_def)
  have none: "records_for k (operations_table fresh_state) = []" for k
    by (simp add: records_for_def fresh_state_def)
  from cache_prevents_duplicate_writes [OF h1 h2, of ?e2]
  have "length (records_for (''fibonacci'', dump_FibonacciInput \<lparr>fi_n = 10\<rparr>)
     (operations_table
        (handle_request example_library ?e2
           (serve example_library
              (handle_request example_library ?e1 fresh_state (PostFibonacci 10)) ?between)
           (PostFibonacci 10)))) = 1"
    unfolding Let_def f none by auto
  with h1 h2 show ?thesis by blast
qed

text \<open>
  C1 as it is written, with exactly one record for every operation and input, fails when
  SQLite fails at the first save: the cache entry is already written, the second request
  is a hit, and the table holds no record of the fingerprint.
\<close>

theorem cache_prevents_duplicate_writes_counterexample:
  "length (records_for (''fibonacci'', dump_FibonacciInput \<lparr>fi_n = 5\<rparr>)
     (operations_table (serve example_library fresh_state repeated_request_failed_save))) = 0 \<and>
   py_truthy (get_from_cache ''fibonacci'' (dump_FibonacciInput \<lparr>fi_n = 5\<rparr>)
     (memory_cache (serve example_library fresh_state repeated_request_failed_save)))"
  by code_simp

lemma calculate_fibonacci_saved:
  assumes "\<not> py_truthy (get_from_cache ''fibonacci'' (dump_FibonacciInput data) (memory_cache st))"
    and "fibonacci (fi_n data) = Inr res"
    and "env_db_fault e = None"
  shows "snd (calculate_fibonacci json_loads max_str_digits data e st)
     = st\<lparr>memory_cache := (memory_cache st)((''fibonacci'', dump_FibonacciInput data) \<mapsto>
             dump_FibonacciResult (new_FibonacciResult (fi_n data) res)),
          operations_table := operations_table st @
            [\<lparr>row_operation = ''fibonacci'', row_input = dump_FibonacciInput data,
              row_result = dump_FibonacciResult (new_FibonacciResult (fi_n data) res),
              row_timestamp = env_utcnow e\<rparr>]\<rparr>"
  using assms
  by (simp add: calculate_fibonacci_def Let_def set_in_cache_def save_operation_def
      split: option.splits)

lemma same_clock_table:
  "operations_table (serve lib fresh_state repeated_request_same_clock)
     = [\<lparr>row_operation = ''fibonacci'', row_input = dump_FibonacciInput \<lparr>fi_n = 5\<rparr>,
         row_result = dump_FibonacciResult (new_FibonacciResult 5 5),
         row_timestamp = ''2025-03-01T09:00:00.015625''\<rparr>,
        \<lparr>row_operation = ''fibonacci'', row_input = dump_FibonacciInput \<lparr>fi_n = 5\<rparr>,
         row_result = dump_FibonacciResult (new_FibonacciResult 5 5),
         row_timestamp = ''2025-03-01T09:00:00.015625''\<rparr>]"
proof -
  let ?e = "at_time ''2025-03-01T09:00:00.015625''"
  let ?d = "\<lparr>fi_n = 5\<rparr>"
  have five: "fibonacci (fi_n ?d) = Inr 5"
    by (simp add: fibonacci_def eval_nat_numeral)
  have ok: "env_db_fault ?e = None" by (simp add: at_time_def)
  have miss: "\<not> py_truthy (get_from_cache ''fibonacci'' (dump_FibonacciInput ?d) Map.empty)"
    by (simp add: py_truthy_def get_from_cache_def)
  define st1 where "st1 = snd (calculate_fibonacci (lib_json_loads lib) (lib_max_str_digits lib)
      ?d ?e fresh_state)"
  have st1: "operations_table st1
      = [\<lparr>row_operation = ''fibonacci'', row_input = dump_FibonacciInput ?d,
          row_result = dump_FibonacciResult (new_FibonacciResult 5 5),
          row_timestamp = ''2025-03-01T09:00:00.015625''\<rparr>]"
    unfolding st1_def
    using calculate_fibonacci_saved [OF _ five ok, where st = fresh_state and json_loads = "lib_json_loads lib"
        and max_str_digits = "lib_max_str_digits lib"] miss
    by (simp add: fresh_state_def at_time_def)
  define stc where "stc = clear_cache_endpoint st1"
  have stc: "memory_cache stc = Map.empty" "operations_table stc = operations_table st1"
    by (simp_all add: stc_def clear_cache_endpoint_def clear_cache_def)
  have "operations_table (snd (calculate_fibonacci (lib_json_loads lib) (lib_max_str_digits lib)
      ?d ?e stc)) = operations_table st1 @
        [\<lparr>row_operation = ''fibonacci'', row_input = dump_FibonacciInput ?d,
          row_result = dump_FibonacciResult (new_FibonacciResult 5 5),
          row_timestamp = ''2025-03-01T09:00:00.015625''\<rparr>]"
    using calculate_fibonacci_saved [OF _ five ok, where st = stc and json_loads = "lib_json_loads lib"
        and max_str_digits = "lib_max_str_digits lib"] miss
    by (simp add: stc at_time_def)
  then show ?thesis
    by (simp add: serve_def repeated_request_same_clock_def new_FibonacciInput_def
        st1 st1_def [symmetric] stc_def [symmetric])
qed

section \<open>Properties of the unique query\<close>

lemma sql_max_Max:
  assumes "ts \<noteq> []"
  shows "sql_max ts = Some (Max (set ts))"
proof (cases ts)
  case Nil
  with assms show ?thesis by simp
next
  case (Cons t ts')
  have "Max (set (t # ts')) = fold max ts' t"
    by (rule Max.set_eq_fold)
  then show ?thesis using Cons by simp
qed

lemma where_conditions_fingerprint:
  "fingerprint r = fingerprint r' \<Longrightarrow> where_conditions a b r = where_conditions a b r'"
  by (auto simp: where_conditions_def fingerprint_def split: option.splits)

lemma distinct_group_keys: "distinct (map fst (group_by_operation_input rows))"
  by (simp add: group_by_operation_input_def comp_def)

lemma in_group_by_operation_input:
  "(k, m) \<in> set (group_by_operation_input rows) \<longleftrightarrow>
     k \<in> fingerprint ` set rows \<and>
     m = Some (Max (row_timestamp ` {r \<in> set rows. fingerprint r = k}))"
proof -
  have "sql_max (map row_timestamp (filter (\<lambda>r. fingerprint r = k) rows))
      = Some (Max (row_timestamp ` {r \<in> set rows. fingerprint r = k}))"
    if "k \<in> fingerprint ` set rows"
  proof -
    from that have "map row_timestamp (filter (\<lambda>r. fingerprint r = k) rows) \<noteq> []"
      by (auto simp: filter_empty_conv)
    then show ?thesis
      by (simp add: sql_max_Max)
  qed
  then show ?thesis
    by (auto simp: group_by_operation_input_def)
qed

lemma filter_single:
  "distinct (map fst gs) \<Longrightarrow>
     filter (\<lambda>g. a = fst g \<and> b = snd g) gs = (if (a, b) \<in> set gs then [(a, b)] else [])"
proof (induction gs)
  case Nil
  show ?case by simp
next
  case (Cons g gs)
  then show ?case by (cases g) (force simp: filter_empty_conv)
qed

lemma inner_join_filter:
  assumes "distinct (map fst gs)"
  shows "inner_join rows gs
       = filter (\<lambda>r. (fingerprint r, Some (row_timestamp r)) \<in> set gs) rows"
  by (induction rows) (simp_all add: inner_join_def filter_single [OF assms])


lemma joined_rows:
  "inner_join table (group_by_operation_input (filter (where_conditions a b) table))
     = filter (\<lambda>r. where_conditions a b r \<and> newest_of_fingerprint table r) table"
proof -
  let ?M = "filter (where_conditions a b) table"
  have "((fingerprint r, Some (row_timestamp r)) \<in> set (group_by_operation_input ?M))
      = (where_conditions a b r \<and> newest_of_fingerprint table r)"
    if r: "r \<in> set table" for r
  proof (cases "where_conditions a b r")
    case False
    have "fingerprint r \<notin> fingerprint ` set ?M"
    proof
      assume "fingerprint r \<in> fingerprint ` set ?M"
      then obtain r' where "where_conditions a b r'" "fingerprint r = fingerprint r'"
        by auto
      with False show False
        by (simp add: where_conditions_fingerprint [of r r'])
    qed
    with False show ?thesis by (simp add: in_group_by_operation_input)
  next
    case True
    define S where "S = row_timestamp ` {r' \<in> set ?M. fingerprint r' = fingerprint r}"
    have same: "where_conditions a b r'" if "fingerprint r' = fingerprint r" for r'
      using True where_conditions_fingerprint [OF that] by simp
    have S: "S = row_timestamp ` {r' \<in> set table. fingerprint r' = fingerprint r}"
      unfolding S_def using same by auto
    have fin: "finite S" by (simp add: S)
    have rin: "row_timestamp r \<in> S" using r by (auto simp: S)
    have "(row_timestamp r = Max S) = (\<forall>t \<in> S. t \<le> row_timestamp r)"
    proof
      assume eq: "row_timestamp r = Max S"
      show "\<forall>t \<in> S. t \<le> row_timestamp r"
      proof
        fix t assume "t \<in> S"
        with fin have "t \<le> Max S" by (rule Max_ge)
        with eq show "t \<le> row_timestamp r" by simp
      qed
    next
      assume le: "\<forall>t \<in> S. t \<le> row_timestamp r"
      have "Max S = row_timestamp r"
        using fin le rin by (intro Max_eqI) simp_all
      then show "row_timestamp r = Max S" by simp
    qed
    also have "\<dots> = newest_of_fingerprint table r"
      unfolding S by (auto simp: newest_of_fingerprint_def list_all_iff)
    finally have "(row_timestamp r = Max S) = newest_of_fingerprint table r" .
    moreover have "fingerprint r \<in> fingerprint ` set ?M"
      using r True by simp
    ultimately show ?thesis
      using True by (simp add: in_group_by_operation_input S_def)
  qed
  then show ?thesis
    by (simp add: inner_join_filter [OF distinct_group_keys] cong: filter_cong)
qed

lemma get_unique_operations_set:
  "set (get_unique_operations a b table)
     = {r \<in> set table. where_conditions a b r \<and> newest_of_fingerprint table r}"
  by (simp add: get_unique_operations_def order_by_timestamp_desc_def joined_rows)

lemma get_unique_operations_newest_first:
  "sorted (rev (map row_timestamp (get_unique_operations a b table)))"
  by (simp add: get_unique_operations_def order_by_timestamp_desc_def rev_map [symmetric])

lemma length_records_for_unique:
  "length (records_for f (get_unique_operations a b table))
     = length (filter (\<lambda>r. fingerprint r = f \<and> where_conditions a b r \<and>
                           newest_of_fingerprint table r) table)"
proof -
  have "length (records_for f (get_unique_operations a b table))
      = length (filter (\<lambda>r. fingerprint r = f)
          (filter (\<lambda>r. where_conditions a b r \<and> newest_of_fingerprint table r) table))"
    unfolding records_for_def get_unique_operations_def order_by_timestamp_desc_def joined_rows
    by (simp add: rev_filter [symmetric] filter_sort)
  then show ?thesis by (simp add: conj_commute conj_left_commute)
qed

lemma length_filter_key_one:
  "distinct (map k xs) \<Longrightarrow> m \<in> k ` set xs \<Longrightarrow> length (filter (\<lambda>x. k x = m) xs) = 1"
proof (induction xs)
  case Nil
  then show ?case by simp
next
  case (Cons x xs)
  show ?case
  proof (cases "k x = m")
    case True
    with Cons.prems have "m \<notin> k ` set xs" by simp
    then have "filter (\<lambda>y. k y = m) xs = []"
      by (auto simp: filter_empty_conv)
    with True show ?thesis by simp
  next
    case False
    with Cons show ?thesis by auto
  qed
qed

lemma newest_iff_Max:
  assumes r: "r \<in> set table"
  shows "newest_of_fingerprint table r
     \<longleftrightarrow> row_timestamp r = Max (set (map row_timestamp (records_for (fingerprint r) table)))"
proof -
  define S where "S = set (map row_timestamp (records_for (fingerprint r) table))"
  have fin: "finite S" by (simp add: S_def)
  have rin: "row_timestamp r \<in> S" using r by (auto simp: S_def records_for_def)
  have "newest_of_fingerprint table r = (\<forall>t \<in> S. t \<le> row_timestamp r)"
    by (auto simp: newest_of_fingerprint_def list_all_iff S_def records_for_def)
  also have "\<dots> = (row_timestamp r = Max S)"
  proof
    assume le: "\<forall>t \<in> S. t \<le> row_timestamp r"
    have "Max S = row_timestamp r"
      using fin le rin by (intro Max_eqI) simp_all
    then show "row_timestamp r = Max S" by simp
  next
    assume eq: "row_timestamp r = Max S"
    show "\<forall>t \<in> S. t \<le> row_timestamp r"
    proof
      fix t assume "t \<in> S"
      with fin have "t \<le> Max S" by (rule Max_ge)
      with eq show "t \<le> row_timestamp r" by simp
    qed
  qed
  finally show ?thesis by (simp add: S_def)
qed

lemma unique_query_one_per_fingerprint:
  assumes d: "distinct (map row_timestamp (records_for f table))"
    and m: "list_ex (\<lambda>r. fingerprint r = f \<and> where_conditions a b r) table"
  shows "length (records_for f (get_unique_operations a b table)) = 1"
proof -
  from m obtain r0 where r0: "r0 \<in> set table" "fingerprint r0 = f" "where_conditions a b r0"
    by (auto simp: list_ex_iff)
  define G where "G = records_for f table"
  define m where "m = Max (set (map row_timestamp G))"
  have "r0 \<in> set G" using r0 by (simp add: G_def records_for_def)
  then have ne: "set (map row_timestamp G) \<noteq> {}" by auto
  have "m \<in> set (map row_timestamp G)"
    unfolding m_def using ne by (intro Max_in) simp_all
  then have min: "m \<in> row_timestamp ` set G" by simp
  have "(fingerprint r = f \<and> where_conditions a b r \<and> newest_of_fingerprint table r)
      = (fingerprint r = f \<and> row_timestamp r = m)" if r: "r \<in> set table" for r
  proof (cases "fingerprint r = f")
    case False
    then show ?thesis by simp
  next
    case True
    then have "where_conditions a b r"
      using r0 where_conditions_fingerprint [of r r0 a b] by simp
    moreover have "newest_of_fingerprint table r = (row_timestamp r = m)"
      using newest_iff_Max [OF r] True by (simp add: m_def G_def)
    ultimately show ?thesis using True by simp
  qed
  then have "filter (\<lambda>r. fingerprint r = f \<and> where_conditions a b r \<and>
                         newest_of_fingerprint table r) table
      = filter (\<lambda>r. row_timestamp r = m) G"
    unfolding G_def records_for_def by (simp add: conj_commute cong: filter_cong)
  moreover have "length (filter (\<lambda>r. row_timestamp r = m) G) = 1"
    using d min unfolding G_def by (rule length_filter_key_one)
  ultimately show ?thesis
    by (simp add: length_records_for_unique)
qed

lemma repeated_save_same_clock_saved:
  \<open>\<exists>t1 t2.
     save_operation None ''pow'' ''{"x": 2, "y": 3}'' ''{"result": 8}''
         ''2025-03-01T09:00:00.015625'' [] = Inr t1 \<and>
     save_operation None ''pow'' ''{"x": 2, "y": 3}'' ''{"result": 8}''
         ''2025-03-01T09:00:00.015625'' t1 = Inr t2 \<and>
     save_operation None ''factorial'' ''{"n": 5}'' ''{"result": 120}''
         ''2025-03-01T09:00:00.031250'' t2 = Inr repeated_save_same_clock\<close>
  by (simp add: save_operation_def repeated_save_same_clock_def)

text \<open>
  C5: the unique query returns the rows that pass the filters and are the newest of
  their fingerprint, newest first (lemmas \<open>get_unique_operations_set\<close>,
  \<open>get_unique_operations_newest_first\<close>), and exactly one row per fingerprint when the
  timestamps within the fingerprint differ (\<open>unique_query_one_per_fingerprint\<close>). When
  rows of one fingerprint tie on the greatest timestamp, the join keeps all of them
  instead of a single one: on the three saves of the repository's own test, with the
  clock reading the same value at the two \<^verbatim>\<open>pow\<close> saves, the table has two fingerprints
  and the query returns three rows, two of them for \<^verbatim>\<open>pow\<close>.
\<close>

theorem unique_query_returns_every_tied_record:
  \<open>length (remdups (map fingerprint repeated_save_same_clock)) = 2 \<and>
   length (get_unique_operations None None repeated_save_same_clock) = 3 \<and>
   length (records_for (''pow'', ''{"x": 2, "y": 3}'')
             (get_unique_operations None None repeated_save_same_clock)) = 2\<close>
  by code_simp

section \<open>Properties of the statistics\<close>


lemma concatenation_can_merge_pairs:
  "length (remdups (map fingerprint colliding_concatenation)) = 2 \<and>
   unique_combinations (get_db_stats colliding_concatenation) = 1 \<and>
   duplicates (get_db_stats colliding_concatenation) = 1"
  by code_simp









section \<open>The same request before and after a cache clear\<close>

lemma repeated_after_clear_distinct_clock:
  assumes f: "fingerprint_of lib q = Some f"
    and wrote1: "operations_table (handle_request lib e1 st q) \<noteq> operations_table st"
    and wrote2: "operations_table
                   (handle_request lib e2 (clear_cache_endpoint (handle_request lib e1 st q)) q)
                 \<noteq> operations_table (handle_request lib e1 st q)"
    and none: "records_for f (operations_table st) = []"
    and clock: "env_utcnow e1 \<noteq> env_utcnow e2"
  shows "let table = operations_table
                       (serve lib st [(e1, q), (ec, PostCacheClear), (e2, q)])
         in length (records_for f table) = 2 \<and>
            length (records_for f (get_unique_operations None None table)) = 1 \<and>
            list_all (\<lambda>r. row_timestamp r = max (env_utcnow e1) (env_utcnow e2))
              (records_for f (get_unique_operations None None table))"
proof -
  define st1 where "st1 = handle_request lib e1 st q"
  define stc where "stc = clear_cache_endpoint st1"
  define st2 where "st2 = handle_request lib e2 stc q"
  define table where "table = operations_table st2"
  have served: "serve lib st [(e1, q), (ec, PostCacheClear), (e2, q)] = st2"
    by (simp add: serve_def st1_def stc_def st2_def)
  have tc: "operations_table stc = operations_table st1"
    by (simp add: stc_def clear_cache_endpoint_def)
  from effect_wrote [OF handle_request_effect [OF f, of e1 st]] wrote1
  obtain res1 where t1: "operations_table st1 = operations_table st @
      [\<lparr>row_operation = fst f, row_input = snd f, row_result = res1,
        row_timestamp = env_utcnow e1\<rparr>]"
    unfolding st1_def by blast
  from effect_wrote [OF handle_request_effect [OF f, of e2 stc]] wrote2
  obtain res2 where t2: "operations_table st2 = operations_table stc @
      [\<lparr>row_operation = fst f, row_input = snd f, row_result = res2,
        row_timestamp = env_utcnow e2\<rparr>]"
    unfolding st2_def stc_def st1_def clear_cache_endpoint_def by auto
  let ?r1 = "\<lparr>row_operation = fst f, row_input = snd f, row_result = res1,
               row_timestamp = env_utcnow e1\<rparr>"
  let ?r2 = "\<lparr>row_operation = fst f, row_input = snd f, row_result = res2,
               row_timestamp = env_utcnow e2\<rparr>"
  have table: "table = operations_table st @ [?r1, ?r2]"
    by (simp add: table_def t2 tc t1)
  have recs: "records_for f table = [?r1, ?r2]"
    using none by (simp add: table records_for_def fingerprint_def)
  have two: "length (records_for f table) = 2"
    by (simp add: recs)
  have "distinct (map row_timestamp (records_for f table))"
    using clock by (simp add: recs)
  moreover have "list_ex (\<lambda>r. fingerprint r = f \<and> where_conditions None None r) table"
    by (simp add: table where_conditions_def fingerprint_def)
  ultimately have one: "length (records_for f (get_unique_operations None None table)) = 1"
    by (rule unique_query_one_per_fingerprint)
  have newest: "row_timestamp r = max (env_utcnow e1) (env_utcnow e2)"
    if "r \<in> set (records_for f (get_unique_operations None None table))" for r
  proof -
    from that have fr: "fingerprint r = f" and r: "r \<in> set table"
      and n: "newest_of_fingerprint table r"
      by (simp_all add: records_for_def get_unique_operations_set)
    from r fr have "r \<in> set (records_for f table)"
      by (simp add: records_for_def)
    then have cases: "row_timestamp r = env_utcnow e1 \<or> row_timestamp r = env_utcnow e2"
      by (auto simp: recs)
    from n fr have "env_utcnow e1 \<le> row_timestamp r" "env_utcnow e2 \<le> row_timestamp r"
      by (auto simp: newest_of_fingerprint_def table fingerprint_def)
    with cases show ?thesis by (auto simp: max_def)
  qed
  then have "list_all (\<lambda>r. row_timestamp r = max (env_utcnow e1) (env_utcnow e2))
              (records_for f (get_unique_operations None None table))"
    by (simp add: list_all_iff)
  with two one show ?thesis
    unfolding Let_def served table_def [symmetric] by blast
qed

text \<open>
  C2: the same request sent twice with a cache clear in between leaves two records of
  the fingerprint in the table, and the unique view shows one entry for it, the one with
  the greater timestamp, when the two saves read different values from the clock
  (lemma \<open>repeated_after_clear_distinct_clock\<close>). When both saves read the same value,
  the two records tie and the unique view shows both.
\<close>

theorem unique_view_shows_both_after_clear:
  "length (records_for (''fibonacci'', dump_FibonacciInput \<lparr>fi_n = 5\<rparr>)
      (operations_table (serve lib fresh_state repeated_request_same_clock))) = 2 \<and>
   length (records_for (''fibonacci'', dump_FibonacciInput \<lparr>fi_n = 5\<rparr>)
      (get_unique_operations None None
         (operations_table (serve lib fresh_state repeated_request_same_clock)))) = 2"
  unfolding same_clock_table
  by (simp add: records_for_def fingerprint_def get_unique_operations_def
      order_by_timestamp_desc_def inner_join_def group_by_operation_input_def
      where_conditions_def)

end
